theory Spec2Isabelle
  imports Complex_Main
begin

section \<open>Data model\<close>

text \<open>
  The voxel sandbox keeps every coordinate as a JavaScript number. The embedding reads
  a number as a real: the arithmetic of the program is taken exactly, the rounding of
  IEEE doubles and the values NaN and Infinity are left out. The only infinite value
  the code uses, the start value \<open>-Infinity\<close> of \<open>highestBlockY\<close>, is the \<open>None\<close>
  of an option.
\<close>

record Vector3 =
  X :: real
  Y :: real
  Z :: real

text \<open>The closed enumeration of block types (the keys of \<open>World.blockTypes\<close>).\<close>

datatype BlockType = Grass | Dirt | Stone | Wood | Leaves

text \<open>
  \<open>World.blockTypes\<close> maps each type name to its own material object; \<open>addBlock\<close>
  receives the material and recovers the type name by comparing object identities.
\<close>

datatype Material = GrassMaterial | DirtMaterial | StoneMaterial | WoodMaterial | LeavesMaterial

fun blockTypes :: "BlockType \<Rightarrow> Material" where
  "blockTypes Grass = GrassMaterial"
| "blockTypes Dirt = DirtMaterial"
| "blockTypes Stone = StoneMaterial"
| "blockTypes Wood = WoodMaterial"
| "blockTypes Leaves = LeavesMaterial"

text \<open>A block is a mesh of the group \<open>World.blocks\<close>: its position and \<open>userData.type\<close>.\<close>

record Block =
  block_position :: Vector3
  block_type :: BlockType

section \<open>World: block storage\<close>

text \<open>
  \<open>World.blocks.children\<close> is the list of meshes in insertion order. \<open>addBlock\<close>
  builds a mesh, copies the position, derives the type from the material and appends it
  with \<open>Group.add\<close>; it looks at no block already there.
\<close>

definition userDataType :: "Material \<Rightarrow> BlockType" where
  "userDataType material =
     (if material = blockTypes Grass then Grass
      else if material = blockTypes Dirt then Dirt
      else if material = blockTypes Stone then Stone
      else if material = blockTypes Wood then Wood
      else Leaves)"

definition addBlock :: "Block list \<Rightarrow> Vector3 \<Rightarrow> Material \<Rightarrow> Block list" where
  "addBlock blocks pos material =
     blocks @ [\<lparr>block_position = pos, block_type = userDataType material\<rparr>]"

text \<open>
  \<open>findSafeSpawnPosition\<close>: the loop over all blocks keeps the running maximum
  \<open>highestY\<close>, which starts at 0.
\<close>

definition findSafeSpawnPosition :: "Block list \<Rightarrow> Vector3" where
  "findSafeSpawnPosition blocks =
     (let centerX = 0; centerZ = 0;
          highestY = foldl (\<lambda>highestY block.
                       if X (block_position block) = centerX \<and> Z (block_position block) = centerZ
                       then max highestY (Y (block_position block))
                       else highestY) 0 blocks
      in \<lparr>X = centerX, Y = highestY + 2, Z = centerZ\<rparr>)"

text \<open>
  For the statements about storage: the heights of the blocks of the grid column
  (0, 0), and the blocks that sit at a position.
\<close>

definition columnYs :: "Block list \<Rightarrow> real set" where
  "columnYs blocks =
     set (map (\<lambda>b. Y (block_position b))
            (filter (\<lambda>b. X (block_position b) = 0 \<and> Z (block_position b) = 0) blocks))"

definition blocksAt :: "Block list \<Rightarrow> Vector3 \<Rightarrow> Block list" where
  "blocksAt blocks pos = filter (\<lambda>b. block_position b = pos) blocks"

section \<open>World: terrain and trees\<close>

text \<open>
  \<open>Math.random\<close> is the sequence of values its calls return: the call number \<open>n\<close>
  (counting from 0) returns \<open>random n\<close>. Generation threads the block list together
  with the number of calls made so far. The noise function \<open>noise2D\<close> of the
  simplex-noise package is a parameter.
\<close>

type_synonym Gen = "Block list \<times> nat"

text \<open>
  \<open>generateTree(x, y, z)\<close>: one call of \<open>Math.random\<close> for the trunk height, the
  trunk loop, then the three nested leaf loops (\<open>lx\<close>, \<open>ly\<close>, \<open>lz\<close>) whose body
  skips the corners with \<open>continue\<close>.
\<close>

definition generateTree :: "(nat \<Rightarrow> real) \<Rightarrow> Gen \<Rightarrow> real \<Rightarrow> real \<Rightarrow> real \<Rightarrow> Gen" where
  "generateTree random g x y z =
     (let blocks = fst g; n = snd g;
          treeHeight = 4 + \<lfloor>random n * 3\<rfloor>;
          trunk = foldl (\<lambda>bs i.
                    addBlock bs \<lparr>X = x, Y = y + of_int i, Z = z\<rparr> (blockTypes Wood))
                  blocks [0 .. treeHeight - 1];
          leaves = foldl (\<lambda>bs lx. foldl (\<lambda>bs ly. foldl (\<lambda>bs lz.
                     if \<bar>lx\<bar> = 2 \<and> \<bar>lz\<bar> = 2 then bs
                     else addBlock bs
                            \<lparr>X = x + of_int lx, Y = y + of_int treeHeight + of_int ly,
                             Z = z + of_int lz\<rparr>
                            (blockTypes Leaves))
                     bs [-2 .. 2]) bs [-1 .. 2]) trunk [-2 .. 2]
      in (leaves, Suc n))"

text \<open>The material of the ground block at height \<open>y\<close> of a column of the given elevation.\<close>

definition groundMaterial :: "int \<Rightarrow> int \<Rightarrow> Material" where
  "groundMaterial y elevation =
     (if y = elevation then blockTypes Grass
      else if y > elevation - 3 then blockTypes Dirt
      else blockTypes Stone)"

definition elevationOf :: "(real \<Rightarrow> real \<Rightarrow> real) \<Rightarrow> real \<Rightarrow> int \<Rightarrow> int \<Rightarrow> int" where
  "elevationOf noise2D height x z =
     \<lfloor>(noise2D (of_int x * 0.05) (of_int z * 0.05) + 1) * height / 2\<rfloor>"

text \<open>
  The body of the inner loop of \<open>generateTerrain\<close> for one column: the ground
  blocks for \<open>y = 0 .. elevation\<close>, then one call of \<open>Math.random\<close> that decides
  whether a tree is rooted on top.
\<close>

definition generateColumn ::
  "(real \<Rightarrow> real \<Rightarrow> real) \<Rightarrow> (nat \<Rightarrow> real) \<Rightarrow> real \<Rightarrow> int \<Rightarrow> Gen \<Rightarrow> int \<Rightarrow> Gen" where
  "generateColumn noise2D random height x g z =
     (let blocks = fst g; n = snd g;
          elevation = elevationOf noise2D height x z;
          ground = foldl (\<lambda>bs y.
                     addBlock bs \<lparr>X = of_int x, Y = of_int y, Z = of_int z\<rparr>
                       (groundMaterial y elevation))
                   blocks [0 .. elevation]
      in if random n < 0.01
         then generateTree random (ground, Suc n) (of_int x) (of_int (elevation + 1)) (of_int z)
         else (ground, Suc n))"

text \<open>
  \<open>generateTerrain\<close>: \<open>x\<close> and \<open>z\<close> run from \<open>-size/2\<close> while \<open>< size/2\<close>, with
  the constants \<open>size = 48\<close> and \<open>height = 8\<close> of the source. (The skybox goes to the
  scene, not to the blocks.)
\<close>

definition generateTerrain :: "(real \<Rightarrow> real \<Rightarrow> real) \<Rightarrow> (nat \<Rightarrow> real) \<Rightarrow> Gen \<Rightarrow> Gen" where
  "generateTerrain noise2D random g =
     (let size = 48; height = 8 in
      foldl (\<lambda>g x. foldl (generateColumn noise2D random height x) g
                      [- (size div 2) .. size div 2 - 1])
            g [- (size div 2) .. size div 2 - 1])"

text \<open>
  The world after its constructor: the group of blocks starts empty and
  \<open>generateTerrain\<close> fills it.
\<close>

definition World_constructor :: "(real \<Rightarrow> real \<Rightarrow> real) \<Rightarrow> (nat \<Rightarrow> real) \<Rightarrow> Block list" where
  "World_constructor noise2D random = fst (generateTerrain noise2D random ([], 0))"

text \<open>
  For the statements about generation: the blocks a call has added to the list it was
  given, the positions of the blocks of one type, in order, and the ground blocks
  (grass, dirt and stone; trees are wood and leaves).
\<close>

definition added :: "Block list \<Rightarrow> Block list \<Rightarrow> Block list" where
  "added before after = drop (length before) after"

definition positionsOf :: "BlockType \<Rightarrow> Block list \<Rightarrow> Vector3 list" where
  "positionsOf t blocks = map block_position (filter (\<lambda>b. block_type b = t) blocks)"

definition isGround :: "Block \<Rightarrow> bool" where
  "isGround b = (block_type b = Grass \<or> block_type b = Dirt \<or> block_type b = Stone)"

text \<open>
  The blocks one call of \<open>generateTree\<close> with trunk height \<open>h\<close> appends, in order: the
  trunk, then the leaves in the order of the three loops.
\<close>

definition trunkBlocks :: "real \<Rightarrow> real \<Rightarrow> real \<Rightarrow> int \<Rightarrow> Block list" where
  "trunkBlocks x y z h =
     map (\<lambda>i. \<lparr>block_position = \<lparr>X = x, Y = y + of_int i, Z = z\<rparr>, block_type = Wood\<rparr>) [0 .. h - 1]"

definition leafBlocks :: "real \<Rightarrow> real \<Rightarrow> real \<Rightarrow> int \<Rightarrow> Block list" where
  "leafBlocks x y z h =
     concat (map (\<lambda>lx. concat (map (\<lambda>ly. concat (map (\<lambda>lz.
        if \<bar>lx\<bar> = 2 \<and> \<bar>lz\<bar> = 2 then []
        else [\<lparr>block_position = \<lparr>X = x + of_int lx, Y = y + of_int h + of_int ly, Z = z + of_int lz\<rparr>,
               block_type = Leaves\<rparr>]) [-2 .. 2])) [-1 .. 2])) [-2 .. 2])"

text \<open>
  The ground blocks of one column of elevation \<open>e\<close>, in the order the loop over \<open>y\<close>
  appends them.
\<close>

definition columnBlocks :: "int \<Rightarrow> int \<Rightarrow> int \<Rightarrow> Block list" where
  "columnBlocks x z e =
     map (\<lambda>y. \<lparr>block_position = \<lparr>X = of_int x, Y = of_int y, Z = of_int z\<rparr>,
               block_type = userDataType (groundMaterial y e)\<rparr>) [0 .. e]"

section \<open>Player: state and inventory\<close>

record Slot =
  slot_type :: "BlockType option"
  slot_count :: int

record Player =
  position :: Vector3
  velocity :: Vector3
  onGround :: bool
  fallTime :: real
  cameraPosition :: Vector3
  inventory :: "Slot list"
  selectedSlot :: nat

definition walkSpeed :: real where "walkSpeed = 7"
definition sprintSpeed :: real where "sprintSpeed = 9.1"
definition jumpForce :: real where "jumpForce = 8.5"
definition baseGravity :: real where "baseGravity = 25"
definition maxGravity :: real where "maxGravity = 35"
definition gravityAcceleration :: real where "gravityAcceleration = 14"
definition height :: real where "height = 1.2"
definition width :: real where "width = 0.6"

text \<open>The state the constructor leaves: the camera is one unit above the position.\<close>

definition Player_constructor :: Player where
  "Player_constructor =
     \<lparr>position = \<lparr>X = 0, Y = 20, Z = 0\<rparr>,
      velocity = \<lparr>X = 0, Y = 0, Z = 0\<rparr>,
      onGround = False,
      fallTime = 0,
      cameraPosition = \<lparr>X = 0, Y = 21, Z = 0\<rparr>,
      inventory = replicate 9 \<lparr>slot_type = None, slot_count = 0\<rparr>,
      selectedSlot = 0\<rparr>"

text \<open>
  The game's start-up: the player is constructed, then its position and the camera's
  are overwritten with the world's spawn position.
\<close>

definition spawnPlayer :: "Block list \<Rightarrow> Player" where
  "spawnPlayer blocks =
     (let spawnPosition = findSafeSpawnPosition blocks
      in Player_constructor\<lparr>position := spawnPosition, cameraPosition := spawnPosition\<rparr>)"

text \<open>
  Reading \<open>.type\<close> of \<open>inventory[i]\<close> for an index outside the array throws a
  TypeError in JavaScript; the functions that can throw return a sum.
\<close>

datatype error = TypeError

text \<open>\<open>Array.prototype.findIndex\<close>: the first index whose element passes, or -1.\<close>

fun findIndex :: "('a \<Rightarrow> bool) \<Rightarrow> 'a list \<Rightarrow> int" where
  "findIndex P [] = -1"
| "findIndex P (a # as) =
     (if P a then 0 else (let r = findIndex P as in if r = -1 then -1 else r + 1))"

definition setSelectedSlot :: "int \<Rightarrow> Player \<Rightarrow> Player" where
  "setSelectedSlot slot p = (if slot \<ge> 0 \<and> slot < 9 then p\<lparr>selectedSlot := nat slot\<rparr> else p)"

text \<open>
  \<open>addToInventory\<close> looks for the first slot that \<open>wanted\<close> accepts, the test
  \<open>item.type === blockType || item.type === null\<close>.
\<close>

definition wanted :: "BlockType \<Rightarrow> Slot \<Rightarrow> bool" where
  "wanted blockType item = (slot_type item = Some blockType \<or> slot_type item = None)"

definition addToInventory :: "BlockType \<Rightarrow> Player \<Rightarrow> error + Player" where
  "addToInventory blockType p =
     (let found = findIndex (wanted blockType) (inventory p);
          slot = (if found = -1 then selectedSlot p else nat found)
      in if slot < length (inventory p) then
           (if slot_type (inventory p ! slot) = None
            then Inr (p\<lparr>inventory :=
                   (inventory p)[slot := \<lparr>slot_type = Some blockType, slot_count = 1\<rparr>]\<rparr>)
            else Inr (p\<lparr>inventory :=
                   (inventory p)[slot := (inventory p ! slot)
                      \<lparr>slot_count := slot_count (inventory p ! slot) + 1\<rparr>]\<rparr>))
         else Inl TypeError)"

definition removeFromInventory :: "Player \<Rightarrow> Player" where
  "removeFromInventory p =
     (if selectedSlot p < length (inventory p)
         \<and> slot_type (inventory p ! selectedSlot p) \<noteq> None
      then (let slot = inventory p ! selectedSlot p;
                slot = slot\<lparr>slot_count := slot_count slot - 1\<rparr>;
                slot = (if slot_count slot \<le> 0
                        then slot\<lparr>slot_type := None, slot_count := 0\<rparr> else slot)
            in p\<lparr>inventory := (inventory p)[selectedSlot p := slot]\<rparr>)
      else p)"

definition getSelectedBlockType :: "Player \<Rightarrow> error + BlockType option" where
  "getSelectedBlockType p =
     (if selectedSlot p < length (inventory p)
      then Inr (slot_type (inventory p ! selectedSlot p))
      else Inl TypeError)"

section \<open>Vectors and boxes of three.js\<close>

text \<open>
  The operations of the three.js library the code calls, with the library's meaning:
  \<open>Vector3.length\<close>, \<open>normalize\<close> (division by \<open>length() || 1\<close>),
  \<open>addScaledVector\<close>, \<open>distanceTo\<close>; \<open>Box3.setFromCenterAndSize\<close>, and
  \<open>Box3.intersectsBox\<close>, which counts touching boxes as intersecting.
  \<open>Box3.setFromObject\<close> of a block is the box of the unit cube \<open>BoxGeometry(1, 1, 1)\<close>
  centred at the block's position.
\<close>

definition vlength :: "Vector3 \<Rightarrow> real" where
  "vlength v = sqrt (X v * X v + Y v * Y v + Z v * Z v)"

definition normalize :: "Vector3 \<Rightarrow> Vector3" where
  "normalize v =
     (let l = (if vlength v = 0 then 1 else vlength v)
      in \<lparr>X = X v / l, Y = Y v / l, Z = Z v / l\<rparr>)"

definition addScaledVector :: "Vector3 \<Rightarrow> Vector3 \<Rightarrow> real \<Rightarrow> Vector3" where
  "addScaledVector u v s = \<lparr>X = X u + X v * s, Y = Y u + Y v * s, Z = Z u + Z v * s\<rparr>"

definition distanceTo :: "Vector3 \<Rightarrow> Vector3 \<Rightarrow> real" where
  "distanceTo u v =
     sqrt ((X u - X v) * (X u - X v) + (Y u - Y v) * (Y u - Y v) + (Z u - Z v) * (Z u - Z v))"

record Box3 =
  box_min :: Vector3
  box_max :: Vector3

definition setFromCenterAndSize :: "Vector3 \<Rightarrow> Vector3 \<Rightarrow> Box3" where
  "setFromCenterAndSize center sz =
     \<lparr>box_min = \<lparr>X = X center - X sz * 0.5, Y = Y center - Y sz * 0.5,
                 Z = Z center - Z sz * 0.5\<rparr>,
      box_max = \<lparr>X = X center + X sz * 0.5, Y = Y center + Y sz * 0.5,
                 Z = Z center + Z sz * 0.5\<rparr>\<rparr>"

definition setFromObject :: "Block \<Rightarrow> Box3" where
  "setFromObject block = setFromCenterAndSize (block_position block) \<lparr>X = 1, Y = 1, Z = 1\<rparr>"

definition intersectsBox :: "Box3 \<Rightarrow> Box3 \<Rightarrow> bool" where
  "intersectsBox this box =
     (\<not> (X (box_max box) < X (box_min this) \<or> X (box_min box) > X (box_max this)
         \<or> Y (box_max box) < Y (box_min this) \<or> Y (box_min box) > Y (box_max this)
         \<or> Z (box_max box) < Z (box_min this) \<or> Z (box_min box) > Z (box_max this)))"

text \<open>\<open>Math.round\<close> rounds to the nearest integer, a half towards plus infinity.\<close>

definition Math_round :: "real \<Rightarrow> real" where
  "Math_round r = of_int \<lfloor>r + 1 / 2\<rfloor>"

section \<open>Player: physics\<close>

text \<open>
  The gravity block of \<open>Player.update\<close>: in the air the fall time grows by the fixed
  step and the velocity loses the current gravity times the step; on the ground the
  fall time is reset.
\<close>

definition fixedDelta :: real where "fixedDelta = 1 / 60"

definition currentGravity :: "real \<Rightarrow> real" where
  "currentGravity ft = min (baseGravity + ft * gravityAcceleration) maxGravity"

definition applyGravity :: "Player \<Rightarrow> Player" where
  "applyGravity p =
     (if \<not> onGround p then
        (let ft = fallTime p + fixedDelta
         in p\<lparr>fallTime := ft,
              velocity := (velocity p)\<lparr>Y := Y (velocity p) - currentGravity ft * fixedDelta\<rparr>\<rparr>)
      else p\<lparr>fallTime := 0\<rparr>)"

definition integrate :: "Player \<Rightarrow> Player" where
  "integrate p =
     p\<lparr>position := \<lparr>X = X (position p) + X (velocity p) * fixedDelta,
                      Y = Y (position p) + Y (velocity p) * fixedDelta,
                      Z = Z (position p) + Z (velocity p) * fixedDelta\<rparr>\<rparr>"

text \<open>
  The player's box: \<open>setFromCenterAndSize\<close> of the position and the size
  \<open>(width, height, width)\<close>, as \<open>handleCollisions\<close> and \<open>handleBlockPlacement\<close>
  build it.
\<close>

definition playerBoxAt :: "Vector3 \<Rightarrow> Box3" where
  "playerBoxAt pos = setFromCenterAndSize pos \<lparr>X = width, Y = height, Z = width\<rparr>"

text \<open>
  The penetration depth along one axis (the axis is the coordinate selector):
  \<open>Math.min(Math.abs(playerBox.max - blockBox.min), Math.abs(playerBox.min - blockBox.max))\<close>.
\<close>

definition penetration :: "(Vector3 \<Rightarrow> real) \<Rightarrow> Box3 \<Rightarrow> Box3 \<Rightarrow> real" where
  "penetration axis playerBox blockBox =
     min \<bar>axis (box_max playerBox) - axis (box_min blockBox)\<bar>
         \<bar>axis (box_min playerBox) - axis (box_max blockBox)\<bar>"

text \<open>
  The body of the loop of \<open>handleCollisions\<close> for one block. The player's box is
  built once, before the loop; the position, the velocity and the ground flag are
  the player's fields, changed in place; \<open>highestBlockY\<close> is the loop's local, \<open>None\<close>
  for \<open>-Infinity\<close>. The sums are exact: the resting height
  \<open>blockBox.max.y + height / 2\<close> on a block at height 0 is 11/10, where the
  program's sum of doubles is the double nearest to 1.1, a little above it.
\<close>

definition raiseHighest :: "real option \<Rightarrow> real \<Rightarrow> real option" where
  "raiseHighest highestBlockY v = (case highestBlockY of None \<Rightarrow> Some v | Some h \<Rightarrow> Some (max h v))"

definition collideBlock :: "Box3 \<Rightarrow> Player \<times> real option \<Rightarrow> Block \<Rightarrow> Player \<times> real option" where
  "collideBlock playerBox st block =
     (let p = fst st; highestBlockY = snd st;
          blockBox = setFromObject block
      in if intersectsBox playerBox blockBox then
           (let penetrationX = penetration X playerBox blockBox;
                penetrationY = penetration Y playerBox blockBox;
                penetrationZ = penetration Z playerBox blockBox;
                minPenetration = min (min penetrationX penetrationY) penetrationZ
            in if minPenetration = penetrationY then
                 (if Y (position p) > Y (block_position block) then
                    (if Y (velocity p) \<le> 0
                        \<and> Y (position p) - (Y (box_max blockBox) + height / 2) < 0.1
                     then (p\<lparr>position := (position p)\<lparr>Y := Y (box_max blockBox) + height / 2\<rparr>,
                             velocity := (velocity p)\<lparr>Y := 0\<rparr>,
                             onGround := True\<rparr>,
                           raiseHighest highestBlockY (Y (block_position block) + 1))
                     else (p, highestBlockY))
                  else (p\<lparr>position := (position p)\<lparr>Y := Y (box_min blockBox) - height / 2\<rparr>,
                          velocity := (velocity p)\<lparr>Y := min 0 (Y (velocity p))\<rparr>\<rparr>,
                        highestBlockY))
               else if minPenetration = penetrationX then
                 (if X (position p) > X (block_position block)
                  then (p\<lparr>position := (position p)\<lparr>X := X (box_max blockBox) + width / 2\<rparr>,
                          velocity := (velocity p)\<lparr>X := 0\<rparr>\<rparr>, highestBlockY)
                  else (p\<lparr>position := (position p)\<lparr>X := X (box_min blockBox) - width / 2\<rparr>,
                          velocity := (velocity p)\<lparr>X := 0\<rparr>\<rparr>, highestBlockY))
               else if minPenetration = penetrationZ then
                 (if Z (position p) > Z (block_position block)
                  then (p\<lparr>position := (position p)\<lparr>Z := Z (box_max blockBox) + width / 2\<rparr>,
                          velocity := (velocity p)\<lparr>Z := 0\<rparr>\<rparr>, highestBlockY)
                  else (p\<lparr>position := (position p)\<lparr>Z := Z (box_min blockBox) - width / 2\<rparr>,
                          velocity := (velocity p)\<lparr>Z := 0\<rparr>\<rparr>, highestBlockY))
               else (p, highestBlockY))
         else (p, highestBlockY))"

text \<open>
  \<open>handleCollisions\<close>: it returns at once when the player has no world (\<open>None\<close>);
  otherwise it runs the loop over all blocks and then clears the ground flag when the
  position is more than 0.1 above \<open>highestBlockY\<close>. (Its argument \<open>oldPosition\<close> is
  never read.)
\<close>

definition handleCollisions :: "Block list option \<Rightarrow> Player \<Rightarrow> Player" where
  "handleCollisions world p =
     (case world of
        None \<Rightarrow> p
      | Some blocks \<Rightarrow>
          (let playerBox = playerBoxAt (position p);
               st = foldl (collideBlock playerBox) (p, None) blocks;
               p' = fst st
           in if (case snd st of None \<Rightarrow> True | Some h \<Rightarrow> Y (position p') > h + 0.1)
              then p'\<lparr>onGround := False\<rparr> else p'))"

text \<open>
  \<open>update(delta)\<close> ignores \<open>delta\<close> and steps by \<open>fixedDelta\<close>: gravity, the
  position, the collisions, then the camera at eye level.
\<close>

definition update :: "Block list option \<Rightarrow> real \<Rightarrow> Player \<Rightarrow> Player" where
  "update world delta p =
     (let p = handleCollisions world (integrate (applyGravity p))
      in p\<lparr>cameraPosition := \<lparr>X = X (position p), Y = Y (position p) + 1.0, Z = Z (position p)\<rparr>\<rparr>)"

text \<open>The state after \<open>n\<close> calls of \<open>update\<close>, one per frame of \<open>frameInterval / 1000\<close> seconds.\<close>

fun ticks :: "Block list option \<Rightarrow> nat \<Rightarrow> Player \<Rightarrow> Player" where
  "ticks world 0 p = p"
| "ticks world (Suc n) p = update world (1 / 60) (ticks world n p)"

text \<open>
  \<open>move(direction, isSprinting)\<close>: \<open>applyQuaternion\<close> stands for the rotation by the
  camera's quaternion, a map on vectors that \<open>move\<close> applies to two fresh vectors.
\<close>

definition move :: "(Vector3 \<Rightarrow> Vector3) \<Rightarrow> Vector3 \<Rightarrow> bool \<Rightarrow> Player \<Rightarrow> Player" where
  "move applyQuaternion direction isSprinting p =
     (let forward = applyQuaternion \<lparr>X = 0, Y = 0, Z = -1\<rparr>;
          right = applyQuaternion \<lparr>X = 1, Y = 0, Z = 0\<rparr>;
          forward = normalize (forward\<lparr>Y := 0\<rparr>);
          right = normalize (right\<lparr>Y := 0\<rparr>);
          moveVector = \<lparr>X = 0, Y = 0, Z = 0\<rparr>;
          moveVector = addScaledVector moveVector forward (Z direction);
          moveVector = addScaledVector moveVector right (X direction)
      in if vlength moveVector > 0 then
           (let moveVector = normalize moveVector;
                speed = (if isSprinting then sprintSpeed else walkSpeed)
            in p\<lparr>velocity := (velocity p)\<lparr>X := X moveVector * speed, Z := Z moveVector * speed\<rparr>\<rparr>)
         else p\<lparr>velocity := (velocity p)\<lparr>X := 0, Z := 0\<rparr>\<rparr>)"

definition jump :: "Player \<Rightarrow> Player" where
  "jump p =
     (if onGround p then p\<lparr>velocity := (velocity p)\<lparr>Y := jumpForce\<rparr>, onGround := False\<rparr> else p)"

section \<open>The landing scenario\<close>

text \<open>
  The scenario of the landing claim: a world of one stone block at \<open>(0, 0, 0)\<close> and a
  player as the constructor builds it, put at \<open>(0, 5, 0)\<close>, with no velocity.
\<close>

definition landingWorld :: "Block list" where
  "landingWorld = [\<lparr>block_position = \<lparr>X = 0, Y = 0, Z = 0\<rparr>, block_type = Stone\<rparr>]"

definition landingAvatar :: Player where
  "landingAvatar = Player_constructor\<lparr>position := \<lparr>X = 0, Y = 5, Z = 0\<rparr>\<rparr>"

text \<open>A player at rest on top of that block: on the ground, with no velocity.\<close>

definition landedAvatar :: Player where
  "landedAvatar = Player_constructor\<lparr>position := \<lparr>X = 0, Y = 11 / 10, Z = 0\<rparr>, onGround := True,
     cameraPosition := \<lparr>X = 0, Y = 21 / 10, Z = 0\<rparr>\<rparr>"





text \<open>
  A block that the loop body resolves along y, from above or from below: the boxes
  overlap and the least penetration is the one along y (the loop tests y first, so a
  tie goes to y). \<open>noVerticalHit\<close> says that no block of the world is resolved
  along y for the box of the player \<open>q\<close>; a player without a world meets no block.
\<close>

definition verticalHit :: "Box3 \<Rightarrow> Block \<Rightarrow> bool" where
  "verticalHit playerBox block =
     (intersectsBox playerBox (setFromObject block)
      \<and> min (min (penetration X playerBox (setFromObject block))
                  (penetration Y playerBox (setFromObject block)))
             (penetration Z playerBox (setFromObject block))
          = penetration Y playerBox (setFromObject block))"

definition noVerticalHit :: "Block list option \<Rightarrow> Player \<Rightarrow> bool" where
  "noVerticalHit w q =
     (case w of None \<Rightarrow> True
      | Some blocks \<Rightarrow> list_all (\<lambda>b. \<not> verticalHit (playerBoxAt (position q)) b) blocks)"

text \<open>
  \<open>handleCollisions\<close> in parts. \<open>moved p\<close> is the player that \<open>update\<close> hands to
  \<open>handleCollisions\<close>, after the gravity block and the change of position.
  \<open>afterBlocks p blocks\<close> is the state of the loop, the player and \<open>highestBlockY\<close>,
  once the loop that started with the player \<open>p\<close> has gone through \<open>blocks\<close>; the
  player's box is the one built from the position of \<open>p\<close>. \<open>groundCheck\<close> is the
  statement after the loop, which clears the ground flag.
\<close>

definition moved :: "Player \<Rightarrow> Player" where
  "moved p = integrate (applyGravity p)"

definition afterBlocks :: "Player \<Rightarrow> Block list \<Rightarrow> Player \<times> real option" where
  "afterBlocks p blocks = foldl (collideBlock (playerBoxAt (position p))) (p, None) blocks"

definition groundCheck :: "Player \<times> real option \<Rightarrow> Player" where
  "groundCheck st =
     (if (case snd st of None \<Rightarrow> True | Some h \<Rightarrow> Y (position (fst st)) > h + 0.1)
      then (fst st)\<lparr>onGround := False\<rparr> else fst st)"


text \<open>
  A second scenario: a block at \<open>(0, 0, 0)\<close>, a block at \<open>(0, 2, 0)\<close> added after it,
  and a player on the ground between them at \<open>(0, 1, 0)\<close>, where the gap of one unit
  is lower than the player's height.
\<close>

definition lowCeilingWorld :: "Block list" where
  "lowCeilingWorld = [\<lparr>block_position = \<lparr>X = 0, Y = 0, Z = 0\<rparr>, block_type = Stone\<rparr>,
                      \<lparr>block_position = \<lparr>X = 0, Y = 2, Z = 0\<rparr>, block_type = Stone\<rparr>]"



section \<open>Interaction: placing a block\<close>

record Game =
  world :: "Block list"
  player :: Player

text \<open>
  \<open>handleBlockPlacement\<close>: the argument is the first hit of the raycast, its point
  and the normal of the face hit, or \<open>None\<close> when the ray meets no block.
\<close>

definition placementCell :: "Vector3 \<Rightarrow> Vector3 \<Rightarrow> Vector3" where
  "placementCell point normal =
     (let pos = addScaledVector point normal 0.5
      in \<lparr>X = Math_round (X pos), Y = Math_round (Y pos), Z = Math_round (Z pos)\<rparr>)"

definition handleBlockPlacement :: "(Vector3 \<times> Vector3) option \<Rightarrow> Game \<Rightarrow> error + Game" where
  "handleBlockPlacement intersects g =
     (case intersects of
        None \<Rightarrow> Inr g
      | Some intersection \<Rightarrow>
          (let pos = placementCell (fst intersection) (snd intersection);
               distance = distanceTo pos (position (player g))
           in if distance \<le> 5 then
                (let blockBox = setFromCenterAndSize pos \<lparr>X = 1, Y = 1, Z = 1\<rparr>;
                     playerBox = playerBoxAt (position (player g))
                 in if \<not> intersectsBox blockBox playerBox then
                      (case getSelectedBlockType (player g) of
                         Inl e \<Rightarrow> Inl e
                       | Inr None \<Rightarrow> Inr g
                       | Inr (Some blockType) \<Rightarrow>
                           Inr (g\<lparr>world := addBlock (world g) pos (blockTypes blockType),
                                  player := removeFromInventory (player g)\<rparr>))
                    else Inr g)
              else Inr g))"

text \<open>
  The three constraints of a placement, as the claim about placement names them: the
  cell within reach, the cell's unit cube clear of the player's box, and a type in the
  selected slot.
\<close>

definition withinReach :: "Vector3 \<Rightarrow> Player \<Rightarrow> bool" where
  "withinReach cell p = (distanceTo cell (position p) \<le> 5)"

definition insidePlayer :: "Vector3 \<Rightarrow> Player \<Rightarrow> bool" where
  "insidePlayer cell p =
     intersectsBox (setFromCenterAndSize cell \<lparr>X = 1, Y = 1, Z = 1\<rparr>)
       (playerBoxAt (position p))"

definition selectedSlotEmpty :: "Player \<Rightarrow> bool" where
  "selectedSlotEmpty p = (slot_type (inventory p ! selectedSlot p) = None)"

section \<open>Block storage: theorems\<close>

lemma userDataType_blockTypes: "userDataType (blockTypes t) = t"
  by (cases t) (simp_all add: userDataType_def)

lemma findSafeSpawn_fold:
  "foldl (\<lambda>highestY block.
            if X (block_position block) = 0 \<and> Z (block_position block) = 0
            then max highestY (Y (block_position block)) else highestY) a blocks
   = Max (insert a (columnYs blocks))"
proof (induction blocks arbitrary: a)
  case Nil
  show ?case by (simp add: columnYs_def)
next
  case (Cons b bs)
  have fin: "finite (columnYs bs)" by (simp add: columnYs_def)
  show ?case
  proof (cases "X (block_position b) = 0 \<and> Z (block_position b) = 0")
    case True
    then have col: "columnYs (b # bs) = insert (Y (block_position b)) (columnYs bs)"
      by (simp add: columnYs_def)
    have "Max (insert (max a (Y (block_position b))) (columnYs bs))
          = Max (insert a (insert (Y (block_position b)) (columnYs bs)))"
      using fin by (cases "columnYs bs = {}") (simp_all add: max.assoc)
    with True Cons.IH [of "max a (Y (block_position b))"] col show ?thesis by simp
  next
    case False
    then have "columnYs (b # bs) = columnYs bs" by (auto simp: columnYs_def)
    with False Cons.IH [of a] show ?thesis by auto
  qed
qed

text \<open>
  Claim C6, as the code has it. \<open>findSafeSpawnPosition\<close> returns
  \<open>(0, highestY + 2, 0)\<close> where \<open>highestY\<close> is the maximum of 0 and the y of every
  block of the column \<open>x = 0, z = 0\<close>: the running maximum starts at 0, so it never
  goes below 0. An empty column gives \<open>(0, 2, 0)\<close>, and when the column holds a block
  with \<open>y \<ge> 0\<close> the returned y is exactly 2 above the highest block of the column.
\<close>

theorem findSafeSpawnPosition_floor:
  "findSafeSpawnPosition blocks = \<lparr>X = 0, Y = Max (insert 0 (columnYs blocks)) + 2, Z = 0\<rparr>
   \<and> (columnYs blocks = {} \<longrightarrow> findSafeSpawnPosition blocks = \<lparr>X = 0, Y = 2, Z = 0\<rparr>)
   \<and> ((\<exists>y \<in> columnYs blocks. 0 \<le> y) \<longrightarrow>
        Y (findSafeSpawnPosition blocks) = Max (columnYs blocks) + 2)"
proof -
  have eq: "findSafeSpawnPosition blocks = \<lparr>X = 0, Y = Max (insert 0 (columnYs blocks)) + 2, Z = 0\<rparr>"
    by (simp add: findSafeSpawnPosition_def findSafeSpawn_fold)
  have fin: "finite (columnYs blocks)" by (simp add: columnYs_def)
  have "Max (insert 0 (columnYs blocks)) = Max (columnYs blocks)" if "\<exists>y \<in> columnYs blocks. 0 \<le> y"
  proof -
    from that obtain y where y: "y \<in> columnYs blocks" "0 \<le> y" by blast
    then have ne: "columnYs blocks \<noteq> {}" by blast
    have "y \<le> Max (columnYs blocks)" using fin y by simp
    with y have "0 \<le> Max (columnYs blocks)" by linarith
    then show ?thesis using fin ne by (simp add: max_def)
  qed
  with eq show ?thesis by simp
qed

text \<open>
  The theorem at a world with one block in the column (0, 0), at \<open>y = 3\<close>, and one
  elsewhere; and at the empty world.
\<close>

theorem findSafeSpawnPosition_floor_witness:
  "columnYs [\<lparr>block_position = \<lparr>X = 0, Y = 3, Z = 0\<rparr>, block_type = Grass\<rparr>,
             \<lparr>block_position = \<lparr>X = 1, Y = 7, Z = 0\<rparr>, block_type = Stone\<rparr>] = {3}
   \<and> findSafeSpawnPosition [\<lparr>block_position = \<lparr>X = 0, Y = 3, Z = 0\<rparr>, block_type = Grass\<rparr>,
             \<lparr>block_position = \<lparr>X = 1, Y = 7, Z = 0\<rparr>, block_type = Stone\<rparr>]
       = \<lparr>X = 0, Y = 5, Z = 0\<rparr>
   \<and> findSafeSpawnPosition [] = \<lparr>X = 0, Y = 2, Z = 0\<rparr>"
proof -
  let ?bs = "[\<lparr>block_position = \<lparr>X = 0, Y = 3, Z = 0\<rparr>, block_type = Grass\<rparr>,
             \<lparr>block_position = \<lparr>X = 1, Y = 7, Z = 0\<rparr>, block_type = Stone\<rparr>]"
  have col: "columnYs ?bs = {3}" by (simp add: columnYs_def)
  have e: "columnYs [] = {}" by (simp add: columnYs_def)
  from findSafeSpawnPosition_floor [of ?bs] findSafeSpawnPosition_floor [of "[]"] col e
  show ?thesis by simp
qed

text \<open>
  Claim C6 as stated fails where every block of the column lies below \<open>y = 0\<close>: with
  the single block \<open>(0, -3, 0)\<close> the highest block of the column is at \<open>-3\<close>, the
  claim asks for \<open>y = -1\<close>, and the code returns \<open>y = 2\<close>.
\<close>

theorem findSafeSpawnPosition_negative_counterexample:
  "columnYs [\<lparr>block_position = \<lparr>X = 0, Y = -3, Z = 0\<rparr>, block_type = Stone\<rparr>] = {-3}
   \<and> findSafeSpawnPosition [\<lparr>block_position = \<lparr>X = 0, Y = -3, Z = 0\<rparr>, block_type = Stone\<rparr>]
       = \<lparr>X = 0, Y = 2, Z = 0\<rparr>
   \<and> Y (findSafeSpawnPosition [\<lparr>block_position = \<lparr>X = 0, Y = -3, Z = 0\<rparr>, block_type = Stone\<rparr>])
       \<noteq> Max {-3} + 2"
  by (simp add: columnYs_def findSafeSpawnPosition_def)

text \<open>
  Claim C8, as the code has it. \<open>addBlock(p, type)\<close> appends one new block at \<open>p\<close>
  with the given type and keeps every block already in the collection, also those at
  \<open>p\<close>: the collection grows by one, and so does the number of blocks at \<open>p\<close>.
\<close>

theorem addBlock_appends:
  "addBlock blocks pos (blockTypes t) = blocks @ [\<lparr>block_position = pos, block_type = t\<rparr>]
   \<and> length (addBlock blocks pos (blockTypes t)) = length blocks + 1
   \<and> length (blocksAt (addBlock blocks pos (blockTypes t)) pos) = length (blocksAt blocks pos) + 1"
  by (simp add: addBlock_def blocksAt_def userDataType_blockTypes)

text \<open>
  The theorem for a world of one dirt block at \<open>(1, 2, 3)\<close> and a grass block added
  at the same position: two blocks sit there afterwards.
\<close>

theorem addBlock_appends_witness:
  "length (blocksAt (addBlock [\<lparr>block_position = \<lparr>X = 1, Y = 2, Z = 3\<rparr>, block_type = Dirt\<rparr>]
             \<lparr>X = 1, Y = 2, Z = 3\<rparr> (blockTypes Grass)) \<lparr>X = 1, Y = 2, Z = 3\<rparr>) = 2"
  using addBlock_appends [of "[\<lparr>block_position = \<lparr>X = 1, Y = 2, Z = 3\<rparr>, block_type = Dirt\<rparr>]"
          "\<lparr>X = 1, Y = 2, Z = 3\<rparr>" Grass]
  by (simp add: blocksAt_def)

text \<open>
  Claim C8 as stated fails: two calls of \<open>addBlock\<close> at the same position leave two
  blocks there, the stone block of the first call and the grass block of the second.
\<close>

theorem addBlock_occupied_counterexample:
  "blocksAt (addBlock (addBlock [] \<lparr>X = 0, Y = 0, Z = 0\<rparr> (blockTypes Stone))
               \<lparr>X = 0, Y = 0, Z = 0\<rparr> (blockTypes Grass)) \<lparr>X = 0, Y = 0, Z = 0\<rparr>
   = [\<lparr>block_position = \<lparr>X = 0, Y = 0, Z = 0\<rparr>, block_type = Stone\<rparr>,
      \<lparr>block_position = \<lparr>X = 0, Y = 0, Z = 0\<rparr>, block_type = Grass\<rparr>]"
  by (simp add: addBlock_def blocksAt_def userDataType_def)

section \<open>Inventory: theorems\<close>

lemma findIndex_none: "(\<forall>a \<in> set xs. \<not> P a) \<Longrightarrow> findIndex P xs = -1"
  by (induction xs) simp_all

lemma findIndex_first:
  "i < length xs \<Longrightarrow> P (xs ! i) \<Longrightarrow> (\<forall>j < i. \<not> P (xs ! j)) \<Longrightarrow> findIndex P xs = int i"
proof (induction xs arbitrary: i)
  case Nil
  then show ?case by simp
next
  case (Cons a as)
  show ?case
  proof (cases i)
    case 0
    with Cons.prems show ?thesis by simp
  next
    case (Suc k)
    with Cons.prems have na: "\<not> P a" by auto
    from Suc Cons.prems have "k < length as" "P (as ! k)" "\<forall>j < k. \<not> P (as ! j)" by auto
    then have "findIndex P as = int k" by (rule Cons.IH)
    with na Suc show ?thesis by (simp add: Let_def)
  qed
qed

text \<open>
  Claim C9, as the code has it. When no slot matches the picked-up type and none is
  empty, \<open>addToInventory(type)\<close> falls back to the selected slot and increments that
  slot's count; the slot keeps its own type, it is not overwritten. When some slot
  matches the type or is empty, the first such slot \<open>i\<close> is set to \<open>(type, 1)\<close> if it
  was empty and has its count incremented otherwise.
\<close>

theorem addToInventory_slots:
  "(selectedSlot p < length (inventory p) \<and> (\<forall>item \<in> set (inventory p). \<not> wanted blockType item)
      \<longrightarrow> addToInventory blockType p =
            Inr (p\<lparr>inventory := (inventory p)[selectedSlot p :=
                   (inventory p ! selectedSlot p)
                     \<lparr>slot_count := slot_count (inventory p ! selectedSlot p) + 1\<rparr>]\<rparr>))
   \<and> (i < length (inventory p) \<and> wanted blockType (inventory p ! i)
        \<and> (\<forall>j < i. \<not> wanted blockType (inventory p ! j))
      \<longrightarrow> addToInventory blockType p =
            Inr (p\<lparr>inventory := (inventory p)[i :=
                   (if slot_type (inventory p ! i) = None
                    then \<lparr>slot_type = Some blockType, slot_count = 1\<rparr>
                    else (inventory p ! i)\<lparr>slot_count := slot_count (inventory p ! i) + 1\<rparr>)]\<rparr>))"
proof (intro conjI impI)
  assume a: "selectedSlot p < length (inventory p)
             \<and> (\<forall>item \<in> set (inventory p). \<not> wanted blockType item)"
  then have f: "findIndex (wanted blockType) (inventory p) = -1"
    by (intro findIndex_none) simp
  from a have "slot_type (inventory p ! selectedSlot p) \<noteq> None"
    by (auto simp: wanted_def dest: nth_mem)
  with a f show "addToInventory blockType p =
            Inr (p\<lparr>inventory := (inventory p)[selectedSlot p :=
                   (inventory p ! selectedSlot p)
                     \<lparr>slot_count := slot_count (inventory p ! selectedSlot p) + 1\<rparr>]\<rparr>)"
    by (auto simp: addToInventory_def Let_def)
next
  assume a: "i < length (inventory p) \<and> wanted blockType (inventory p ! i)
        \<and> (\<forall>j < i. \<not> wanted blockType (inventory p ! j))"
  then have f: "findIndex (wanted blockType) (inventory p) = int i"
    by (intro findIndex_first) simp_all
  with a show "addToInventory blockType p =
            Inr (p\<lparr>inventory := (inventory p)[i :=
                   (if slot_type (inventory p ! i) = None
                    then \<lparr>slot_type = Some blockType, slot_count = 1\<rparr>
                    else (inventory p ! i)\<lparr>slot_count := slot_count (inventory p ! i) + 1\<rparr>)]\<rparr>)"
    by (simp add: addToInventory_def Let_def)
qed

text \<open>
  The theorem at two inventories: three slots of dirt with slot 1 selected, picking up
  stone (the fallback); and dirt, an empty slot, grass, picking up grass (the empty
  slot 1 comes first and is initialised).
\<close>

theorem addToInventory_slots_witness:
  "addToInventory Stone
     (Player_constructor\<lparr>inventory := [\<lparr>slot_type = Some Dirt, slot_count = 4\<rparr>,
         \<lparr>slot_type = Some Dirt, slot_count = 5\<rparr>, \<lparr>slot_type = Some Dirt, slot_count = 6\<rparr>],
        selectedSlot := 1\<rparr>)
   = Inr (Player_constructor\<lparr>inventory := [\<lparr>slot_type = Some Dirt, slot_count = 4\<rparr>,
         \<lparr>slot_type = Some Dirt, slot_count = 6\<rparr>, \<lparr>slot_type = Some Dirt, slot_count = 6\<rparr>],
        selectedSlot := 1\<rparr>)
   \<and> addToInventory Grass
     (Player_constructor\<lparr>inventory := [\<lparr>slot_type = Some Dirt, slot_count = 4\<rparr>,
         \<lparr>slot_type = None, slot_count = 0\<rparr>, \<lparr>slot_type = Some Grass, slot_count = 6\<rparr>]\<rparr>)
   = Inr (Player_constructor\<lparr>inventory := [\<lparr>slot_type = Some Dirt, slot_count = 4\<rparr>,
         \<lparr>slot_type = Some Grass, slot_count = 1\<rparr>, \<lparr>slot_type = Some Grass, slot_count = 6\<rparr>]\<rparr>)"
proof -
  let ?full = "Player_constructor\<lparr>inventory := [\<lparr>slot_type = Some Dirt, slot_count = 4\<rparr>,
         \<lparr>slot_type = Some Dirt, slot_count = 5\<rparr>, \<lparr>slot_type = Some Dirt, slot_count = 6\<rparr>],
        selectedSlot := 1\<rparr>"
  let ?gap = "Player_constructor\<lparr>inventory := [\<lparr>slot_type = Some Dirt, slot_count = 4\<rparr>,
         \<lparr>slot_type = None, slot_count = 0\<rparr>, \<lparr>slot_type = Some Grass, slot_count = 6\<rparr>]\<rparr>"
  have 1: "selectedSlot ?full < length (inventory ?full)
           \<and> (\<forall>item \<in> set (inventory ?full). \<not> wanted Stone item)"
    by (simp add: wanted_def)
  have 2: "1 < length (inventory ?gap) \<and> wanted Grass (inventory ?gap ! 1)
           \<and> (\<forall>j < 1. \<not> wanted Grass (inventory ?gap ! j))"
    by (simp add: wanted_def)
  from addToInventory_slots [of ?full Stone 0, THEN conjunct1, rule_format, OF 1]
       addToInventory_slots [of ?gap Grass 1, THEN conjunct2, rule_format, OF 2]
  show ?thesis by simp
qed

text \<open>
  Claim C9 as stated fails: with all nine slots holding dirt and slot 0 selected,
  picking up stone leaves slot 0 a dirt slot, now with count 2; its type does not
  become stone.
\<close>

theorem addToInventory_full_counterexample:
  "addToInventory Stone
     (Player_constructor\<lparr>inventory := replicate 9 \<lparr>slot_type = Some Dirt, slot_count = 1\<rparr>\<rparr>)
   = Inr (Player_constructor\<lparr>inventory :=
            \<lparr>slot_type = Some Dirt, slot_count = 2\<rparr>
            # replicate 8 \<lparr>slot_type = Some Dirt, slot_count = 1\<rparr>\<rparr>)
   \<and> Some Dirt \<noteq> Some Stone"
  by (simp add: addToInventory_def wanted_def Player_constructor_def eval_nat_numeral)

section \<open>Movement: theorems\<close>

text \<open>
  Claim C10. For every direction (the zero direction too), sprint flag, camera
  orientation and player state, \<open>move\<close> changes only \<open>velocity.x\<close> and
  \<open>velocity.z\<close>: \<open>velocity.y\<close>, the position, the ground flag, the fall time, the
  inventory, the selected slot and the camera position stay as they were.
\<close>

theorem move_frame:
  "Y (velocity (move applyQuaternion direction isSprinting p)) = Y (velocity p)
   \<and> position (move applyQuaternion direction isSprinting p) = position p
   \<and> onGround (move applyQuaternion direction isSprinting p) = onGround p
   \<and> fallTime (move applyQuaternion direction isSprinting p) = fallTime p
   \<and> inventory (move applyQuaternion direction isSprinting p) = inventory p
   \<and> selectedSlot (move applyQuaternion direction isSprinting p) = selectedSlot p
   \<and> cameraPosition (move applyQuaternion direction isSprinting p) = cameraPosition p
   \<and> move applyQuaternion direction isSprinting p =
       p\<lparr>velocity := (velocity p)
            \<lparr>X := X (velocity (move applyQuaternion direction isSprinting p)),
             Z := Z (velocity (move applyQuaternion direction isSprinting p))\<rparr>\<rparr>"
  by (simp add: move_def Let_def)

text \<open>
  The theorem with the camera unrotated and the player moving at \<open>(3, -2, 4)\<close>:
  walking forward gives the velocity \<open>(0, -2, -7)\<close>, the zero direction \<open>(0, -2, 0)\<close>.
\<close>

theorem move_frame_witness:
  "velocity (move (\<lambda>v. v) \<lparr>X = 0, Y = 0, Z = 1\<rparr> False
      (Player_constructor\<lparr>velocity := \<lparr>X = 3, Y = -2, Z = 4\<rparr>\<rparr>)) = \<lparr>X = 0, Y = -2, Z = -7\<rparr>
   \<and> position (move (\<lambda>v. v) \<lparr>X = 0, Y = 0, Z = 1\<rparr> False
      (Player_constructor\<lparr>velocity := \<lparr>X = 3, Y = -2, Z = 4\<rparr>\<rparr>)) = \<lparr>X = 0, Y = 20, Z = 0\<rparr>
   \<and> velocity (move (\<lambda>v. v) \<lparr>X = 0, Y = 0, Z = 0\<rparr> True
      (Player_constructor\<lparr>velocity := \<lparr>X = 3, Y = -2, Z = 4\<rparr>\<rparr>)) = \<lparr>X = 0, Y = -2, Z = 0\<rparr>"
proof -
  let ?p = "Player_constructor\<lparr>velocity := \<lparr>X = 3, Y = -2, Z = 4\<rparr>\<rparr>"
  have x: "X (velocity (move (\<lambda>v. v) \<lparr>X = 0, Y = 0, Z = 1\<rparr> False ?p)) = 0"
    and z: "Z (velocity (move (\<lambda>v. v) \<lparr>X = 0, Y = 0, Z = 1\<rparr> False ?p)) = -7"
    and x0: "X (velocity (move (\<lambda>v. v) \<lparr>X = 0, Y = 0, Z = 0\<rparr> True ?p)) = 0"
    and z0: "Z (velocity (move (\<lambda>v. v) \<lparr>X = 0, Y = 0, Z = 0\<rparr> True ?p)) = 0"
    by (simp_all add: move_def Let_def normalize_def vlength_def addScaledVector_def walkSpeed_def)
  from move_frame [of "\<lambda>v. v" "\<lparr>X = 0, Y = 0, Z = 1\<rparr>" False ?p]
       move_frame [of "\<lambda>v. v" "\<lparr>X = 0, Y = 0, Z = 0\<rparr>" True ?p] x z x0 z0
  show ?thesis by (simp add: Player_constructor_def)
qed

section \<open>Placement: theorems\<close>

lemma sqrt_le_5: "sqrt r \<le> 5 \<longleftrightarrow> r \<le> 25"
proof -
  have "sqrt 25 = 5" by (rule real_sqrt_unique) simp_all
  with real_sqrt_le_iff [of r 25] show ?thesis by simp
qed

lemma placement_outcome:
  assumes sel: "selectedSlot (player g) < length (inventory (player g))"
  shows "handleBlockPlacement (Some (point, normal)) g =
     Inr (if withinReach (placementCell point normal) (player g)
             \<and> \<not> insidePlayer (placementCell point normal) (player g)
             \<and> \<not> selectedSlotEmpty (player g)
          then g\<lparr>world := world g @
                    [\<lparr>block_position = placementCell point normal,
                      block_type = the (slot_type (inventory (player g) ! selectedSlot (player g)))\<rparr>],
                  player := (player g)\<lparr>inventory := (inventory (player g))[selectedSlot (player g) :=
                    (if slot_count (inventory (player g) ! selectedSlot (player g)) - 1 \<le> 0
                     then \<lparr>slot_type = None, slot_count = 0\<rparr>
                     else \<lparr>slot_type = slot_type (inventory (player g) ! selectedSlot (player g)),
                           slot_count = slot_count (inventory (player g) ! selectedSlot (player g)) - 1\<rparr>)]\<rparr>\<rparr>
          else g)"
proof (cases "slot_type (inventory (player g) ! selectedSlot (player g))")
  case None
  with sel show ?thesis
    by (simp add: handleBlockPlacement_def Let_def withinReach_def insidePlayer_def
        selectedSlotEmpty_def getSelectedBlockType_def)
next
  case (Some t)
  obtain ty c where slot: "inventory (player g) ! selectedSlot (player g)
      = \<lparr>slot_type = ty, slot_count = c\<rparr>"
    by (cases "inventory (player g) ! selectedSlot (player g)") simp
  have rm: "removeFromInventory (player g) =
     (player g)\<lparr>inventory := (inventory (player g))[selectedSlot (player g) :=
                    (if slot_count (inventory (player g) ! selectedSlot (player g)) - 1 \<le> 0
                     then \<lparr>slot_type = None, slot_count = 0\<rparr>
                     else \<lparr>slot_type = Some t,
                           slot_count = slot_count (inventory (player g) ! selectedSlot (player g)) - 1\<rparr>)]\<rparr>"
    using sel Some by (simp add: removeFromInventory_def Let_def slot)
  show ?thesis
    using sel Some
    by (simp add: handleBlockPlacement_def Let_def withinReach_def insidePlayer_def
        selectedSlotEmpty_def getSelectedBlockType_def rm addBlock_def userDataType_blockTypes)
qed

text \<open>
  Claim C7. For a placement with a raycast hit and a selected slot inside the
  inventory: when the candidate cell is within reach (distance at most 5), its unit
  cube does not intersect the player's box and the selected slot holds a type, the
  block is added at the cell with the selected slot's type and the selected slot is
  decremented (by \<open>removeFromInventory\<close>: the count goes down by one, every other slot
  stays); when any of the three fails, the game is returned unchanged, world and
  inventory alike.
\<close>

theorem handleBlockPlacement_constraints:
  assumes sel: "selectedSlot (player g) < length (inventory (player g))"
  shows "(withinReach (placementCell point normal) (player g)
          \<and> \<not> insidePlayer (placementCell point normal) (player g)
          \<and> \<not> selectedSlotEmpty (player g)
          \<longrightarrow> (\<exists>g'. handleBlockPlacement (Some (point, normal)) g = Inr g'
                \<and> world g' = world g @
                    [\<lparr>block_position = placementCell point normal,
                      block_type = the (slot_type (inventory (player g) ! selectedSlot (player g)))\<rparr>]
                \<and> player g' = removeFromInventory (player g)
                \<and> (1 \<le> slot_count (inventory (player g) ! selectedSlot (player g)) \<longrightarrow>
                     slot_count (inventory (player g') ! selectedSlot (player g))
                       = slot_count (inventory (player g) ! selectedSlot (player g)) - 1)
                \<and> (\<forall>k. k \<noteq> selectedSlot (player g) \<longrightarrow>
                     inventory (player g') ! k = inventory (player g) ! k)))
       \<and> (\<not> (withinReach (placementCell point normal) (player g)
              \<and> \<not> insidePlayer (placementCell point normal) (player g)
              \<and> \<not> selectedSlotEmpty (player g))
          \<longrightarrow> handleBlockPlacement (Some (point, normal)) g = Inr g)"
proof (intro conjI impI)
  assume c: "withinReach (placementCell point normal) (player g)
          \<and> \<not> insidePlayer (placementCell point normal) (player g)
          \<and> \<not> selectedSlotEmpty (player g)"
  let ?s = "inventory (player g) ! selectedSlot (player g)"
  let ?g' = "g\<lparr>world := world g @
                    [\<lparr>block_position = placementCell point normal,
                      block_type = the (slot_type ?s)\<rparr>],
                  player := (player g)\<lparr>inventory := (inventory (player g))[selectedSlot (player g) :=
                    (if slot_count ?s - 1 \<le> 0
                     then \<lparr>slot_type = None, slot_count = 0\<rparr>
                     else \<lparr>slot_type = slot_type ?s, slot_count = slot_count ?s - 1\<rparr>)]\<rparr>\<rparr>"
  from c placement_outcome [OF sel, of point normal]
  have h: "handleBlockPlacement (Some (point, normal)) g = Inr ?g'" by simp
  from c obtain t where t: "slot_type ?s = Some t" by (auto simp: selectedSlotEmpty_def)
  obtain ty n where slot: "?s = \<lparr>slot_type = ty, slot_count = n\<rparr>" by (cases ?s) simp
  have rm: "player ?g' = removeFromInventory (player g)"
    using sel t by (simp add: removeFromInventory_def Let_def slot)
  have cnt: "1 \<le> slot_count ?s \<longrightarrow>
       slot_count (inventory (player ?g') ! selectedSlot (player g)) = slot_count ?s - 1"
    using sel by auto
  have others: "\<forall>k. k \<noteq> selectedSlot (player g) \<longrightarrow>
       inventory (player ?g') ! k = inventory (player g) ! k"
    by simp
  from h rm cnt others
  show "\<exists>g'. handleBlockPlacement (Some (point, normal)) g = Inr g'
                \<and> world g' = world g @
                    [\<lparr>block_position = placementCell point normal,
                      block_type = the (slot_type ?s)\<rparr>]
                \<and> player g' = removeFromInventory (player g)
                \<and> (1 \<le> slot_count ?s \<longrightarrow>
                     slot_count (inventory (player g') ! selectedSlot (player g))
                       = slot_count ?s - 1)
                \<and> (\<forall>k. k \<noteq> selectedSlot (player g) \<longrightarrow>
                     inventory (player g') ! k = inventory (player g) ! k)"
    by (intro exI [of _ ?g']) simp
next
  assume "\<not> (withinReach (placementCell point normal) (player g)
              \<and> \<not> insidePlayer (placementCell point normal) (player g)
              \<and> \<not> selectedSlotEmpty (player g))"
  with placement_outcome [OF sel, of point normal]
  show "handleBlockPlacement (Some (point, normal)) g = Inr g" by auto
qed

text \<open>
  The theorem for a player standing on the stone block at the origin, with two grass
  blocks in the selected slot: a hit on the block's east face places grass at
  \<open>(1, 0, 0)\<close> and leaves one grass block in the slot; a hit on the block's top face
  asks for the cell \<open>(0, 1, 0)\<close>, which the player occupies, and nothing changes.
\<close>

theorem handleBlockPlacement_constraints_witness:
  "handleBlockPlacement (Some (\<lparr>X = 0.5, Y = 0.2, Z = 0.1\<rparr>, \<lparr>X = 1, Y = 0, Z = 0\<rparr>))
     \<lparr>world = [\<lparr>block_position = \<lparr>X = 0, Y = 0, Z = 0\<rparr>, block_type = Stone\<rparr>],
      player = Player_constructor\<lparr>position := \<lparr>X = 0, Y = 1.1, Z = 0\<rparr>,
         inventory := [\<lparr>slot_type = Some Grass, slot_count = 2\<rparr>,
                       \<lparr>slot_type = None, slot_count = 0\<rparr>]\<rparr>\<rparr>
   = Inr \<lparr>world = [\<lparr>block_position = \<lparr>X = 0, Y = 0, Z = 0\<rparr>, block_type = Stone\<rparr>,
                   \<lparr>block_position = \<lparr>X = 1, Y = 0, Z = 0\<rparr>, block_type = Grass\<rparr>],
          player = Player_constructor\<lparr>position := \<lparr>X = 0, Y = 1.1, Z = 0\<rparr>,
            inventory := [\<lparr>slot_type = Some Grass, slot_count = 1\<rparr>,
                          \<lparr>slot_type = None, slot_count = 0\<rparr>]\<rparr>\<rparr>
   \<and> handleBlockPlacement (Some (\<lparr>X = 0.1, Y = 0.5, Z = 0.1\<rparr>, \<lparr>X = 0, Y = 1, Z = 0\<rparr>))
     \<lparr>world = [\<lparr>block_position = \<lparr>X = 0, Y = 0, Z = 0\<rparr>, block_type = Stone\<rparr>],
      player = Player_constructor\<lparr>position := \<lparr>X = 0, Y = 1.1, Z = 0\<rparr>,
         inventory := [\<lparr>slot_type = Some Grass, slot_count = 2\<rparr>,
                       \<lparr>slot_type = None, slot_count = 0\<rparr>]\<rparr>\<rparr>
   = Inr \<lparr>world = [\<lparr>block_position = \<lparr>X = 0, Y = 0, Z = 0\<rparr>, block_type = Stone\<rparr>],
      player = Player_constructor\<lparr>position := \<lparr>X = 0, Y = 1.1, Z = 0\<rparr>,
         inventory := [\<lparr>slot_type = Some Grass, slot_count = 2\<rparr>,
                       \<lparr>slot_type = None, slot_count = 0\<rparr>]\<rparr>\<rparr>"
proof -
  let ?p = "Player_constructor\<lparr>position := \<lparr>X = 0, Y = 1.1, Z = 0\<rparr>,
         inventory := [\<lparr>slot_type = Some Grass, slot_count = 2\<rparr>,
                       \<lparr>slot_type = None, slot_count = 0\<rparr>]\<rparr>"
  let ?g = "\<lparr>world = [\<lparr>block_position = \<lparr>X = 0, Y = 0, Z = 0\<rparr>, block_type = Stone\<rparr>],
             player = ?p\<rparr>"
  have sel: "selectedSlot (player ?g) < length (inventory (player ?g))"
    by (simp add: Player_constructor_def)
  have east: "placementCell \<lparr>X = 0.5, Y = 0.2, Z = 0.1\<rparr> \<lparr>X = 1, Y = 0, Z = 0\<rparr>
              = \<lparr>X = 1, Y = 0, Z = 0\<rparr>"
    and top: "placementCell \<lparr>X = 0.1, Y = 0.5, Z = 0.1\<rparr> \<lparr>X = 0, Y = 1, Z = 0\<rparr>
              = \<lparr>X = 0, Y = 1, Z = 0\<rparr>"
    by (simp_all add: placementCell_def addScaledVector_def Math_round_def Let_def)
  have reach: "withinReach \<lparr>X = 1, Y = 0, Z = 0\<rparr> ?p"
    by (simp add: withinReach_def distanceTo_def Player_constructor_def sqrt_le_5)
  have clear: "\<not> insidePlayer \<lparr>X = 1, Y = 0, Z = 0\<rparr> ?p"
    and inside: "insidePlayer \<lparr>X = 0, Y = 1, Z = 0\<rparr> ?p"
    by (simp_all add: insidePlayer_def playerBoxAt_def intersectsBox_def
        setFromCenterAndSize_def Player_constructor_def width_def height_def)
  have full: "\<not> selectedSlotEmpty ?p"
    by (simp add: selectedSlotEmpty_def Player_constructor_def)
  have rm: "removeFromInventory ?p =
      Player_constructor\<lparr>position := \<lparr>X = 0, Y = 1.1, Z = 0\<rparr>,
            inventory := [\<lparr>slot_type = Some Grass, slot_count = 1\<rparr>,
                          \<lparr>slot_type = None, slot_count = 0\<rparr>]\<rparr>"
    by (simp add: removeFromInventory_def Player_constructor_def Let_def)
  from handleBlockPlacement_constraints [OF sel, of "\<lparr>X = 0.5, Y = 0.2, Z = 0.1\<rparr>"
        "\<lparr>X = 1, Y = 0, Z = 0\<rparr>", THEN conjunct1] east reach clear full
  obtain g' where g': "handleBlockPlacement
        (Some (\<lparr>X = 0.5, Y = 0.2, Z = 0.1\<rparr>, \<lparr>X = 1, Y = 0, Z = 0\<rparr>)) ?g = Inr g'"
      "world g' = world ?g @ [\<lparr>block_position = \<lparr>X = 1, Y = 0, Z = 0\<rparr>,
          block_type = the (slot_type (inventory ?p ! selectedSlot ?p))\<rparr>]"
      "player g' = removeFromInventory ?p"
    by auto
  have "g' = \<lparr>world = world g', player = player g'\<rparr>" by simp
  with g' rm have placed: "handleBlockPlacement
        (Some (\<lparr>X = 0.5, Y = 0.2, Z = 0.1\<rparr>, \<lparr>X = 1, Y = 0, Z = 0\<rparr>)) ?g
      = Inr \<lparr>world = [\<lparr>block_position = \<lparr>X = 0, Y = 0, Z = 0\<rparr>, block_type = Stone\<rparr>,
                   \<lparr>block_position = \<lparr>X = 1, Y = 0, Z = 0\<rparr>, block_type = Grass\<rparr>],
          player = Player_constructor\<lparr>position := \<lparr>X = 0, Y = 1.1, Z = 0\<rparr>,
            inventory := [\<lparr>slot_type = Some Grass, slot_count = 1\<rparr>,
                          \<lparr>slot_type = None, slot_count = 0\<rparr>]\<rparr>\<rparr>"
    by (simp add: Player_constructor_def)
  from handleBlockPlacement_constraints [OF sel, of "\<lparr>X = 0.1, Y = 0.5, Z = 0.1\<rparr>"
        "\<lparr>X = 0, Y = 1, Z = 0\<rparr>", THEN conjunct2] top inside
  have "handleBlockPlacement
        (Some (\<lparr>X = 0.1, Y = 0.5, Z = 0.1\<rparr>, \<lparr>X = 0, Y = 1, Z = 0\<rparr>)) ?g = Inr ?g"
    by simp
  with placed show ?thesis by simp
qed

section \<open>Trees: theorems\<close>

lemma foldl_appends:
  assumes "\<And>bs a. step bs a = bs @ F a"
  shows "foldl step bs xs = bs @ concat (map F xs)"
  using assms by (induction xs arbitrary: bs) simp_all

lemma generateTree_blocks:
  "generateTree random (blocks, n) x y z =
     (blocks @ trunkBlocks x y z (4 + \<lfloor>random n * 3\<rfloor>) @ leafBlocks x y z (4 + \<lfloor>random n * 3\<rfloor>), Suc n)"
proof -
  let ?h = "4 + \<lfloor>random n * 3\<rfloor>"
  have trunk: "foldl (\<lambda>bs i. addBlock bs \<lparr>X = x, Y = y + of_int i, Z = z\<rparr> (blockTypes Wood)) blocks [0 .. ?h - 1]
      = blocks @ trunkBlocks x y z ?h"
    by (subst foldl_appends [where F = "\<lambda>i. [\<lparr>block_position = \<lparr>X = x, Y = y + of_int i, Z = z\<rparr>, block_type = Wood\<rparr>]"])
       (simp_all add: addBlock_def userDataType_def trunkBlocks_def concat_map_singleton)
  have inner: "\<And>bs lx ly. foldl (\<lambda>bs lz.
                     if \<bar>lx\<bar> = 2 \<and> \<bar>lz\<bar> = 2 then bs
                     else addBlock bs
                            \<lparr>X = x + of_int lx, Y = y + of_int ?h + of_int ly,
                             Z = z + of_int lz\<rparr>
                            (blockTypes Leaves)) bs [-2 .. 2]
       = bs @ concat (map (\<lambda>lz.
        if \<bar>lx\<bar> = 2 \<and> \<bar>lz\<bar> = 2 then []
        else [\<lparr>block_position = \<lparr>X = x + of_int lx, Y = y + of_int ?h + of_int ly, Z = z + of_int lz\<rparr>,
               block_type = Leaves\<rparr>]) [-2 .. 2])"
    by (rule foldl_appends) (simp add: addBlock_def userDataType_def)
  have leaves: "\<And>bs. foldl (\<lambda>bs lx. foldl (\<lambda>bs ly. foldl (\<lambda>bs lz.
                     if \<bar>lx\<bar> = 2 \<and> \<bar>lz\<bar> = 2 then bs
                     else addBlock bs
                            \<lparr>X = x + of_int lx, Y = y + of_int ?h + of_int ly,
                             Z = z + of_int lz\<rparr>
                            (blockTypes Leaves))
                     bs [-2 .. 2]) bs [-1 .. 2]) bs [-2 .. 2] = bs @ leafBlocks x y z ?h"
    unfolding inner leafBlocks_def
    by (rule foldl_appends) (rule foldl_appends, rule refl)
  show ?thesis
    by (simp only: generateTree_def Let_def fst_conv snd_conv trunk leaves append_assoc)
qed

lemma positionsOf_append: "positionsOf t (xs @ ys) = positionsOf t xs @ positionsOf t ys"
  by (simp add: positionsOf_def)

lemma wood_trunk: "positionsOf Wood (trunkBlocks x y z h) = map (\<lambda>i. \<lparr>X = x, Y = y + of_int i, Z = z\<rparr>) [0 .. h - 1]"
  by (simp add: positionsOf_def trunkBlocks_def comp_def)

lemma leaves_trunk: "positionsOf Leaves (trunkBlocks x y z h) = []"
  by (simp add: positionsOf_def trunkBlocks_def)

lemma nested_types:
  "\<forall>b \<in> set (concat (map (\<lambda>lx. concat (map (\<lambda>ly. concat (map (\<lambda>lz.
        if C lx lz then [] else [\<lparr>block_position = P lx ly lz, block_type = t\<rparr>]) zs)) ys)) xs)).
     block_type b = t"
  by (auto split: if_splits)

lemma nested_blocks:
  "set (concat (map (\<lambda>lx. concat (map (\<lambda>ly. concat (map (\<lambda>lz.
        if C lx lz then [] else [\<lparr>block_position = P lx ly lz, block_type = t\<rparr>]) zs)) ys)) xs))
   = {\<lparr>block_position = P lx ly lz, block_type = t\<rparr> | lx ly lz.
        lx \<in> set xs \<and> ly \<in> set ys \<and> lz \<in> set zs \<and> \<not> C lx lz}"
  by (auto split: if_splits)

lemma nested_positions:
  "set (map block_position (concat (map (\<lambda>lx. concat (map (\<lambda>ly. concat (map (\<lambda>lz.
        if C lx lz then [] else [\<lparr>block_position = P lx ly lz, block_type = t\<rparr>]) zs)) ys)) xs)))
   = {P lx ly lz | lx ly lz. lx \<in> set xs \<and> ly \<in> set ys \<and> lz \<in> set zs \<and> \<not> C lx lz}"
  unfolding set_map nested_blocks
proof (intro set_eqI iffI)
  fix v
  assume "v \<in> block_position ` {\<lparr>block_position = P lx ly lz, block_type = t\<rparr> | lx ly lz.
        lx \<in> set xs \<and> ly \<in> set ys \<and> lz \<in> set zs \<and> \<not> C lx lz}"
  then show "v \<in> {P lx ly lz | lx ly lz. lx \<in> set xs \<and> ly \<in> set ys \<and> lz \<in> set zs \<and> \<not> C lx lz}"
    by clarsimp blast
next
  fix v
  assume "v \<in> {P lx ly lz | lx ly lz. lx \<in> set xs \<and> ly \<in> set ys \<and> lz \<in> set zs \<and> \<not> C lx lz}"
  then obtain lx ly lz where v: "v = P lx ly lz" "lx \<in> set xs" "ly \<in> set ys" "lz \<in> set zs" "\<not> C lx lz"
    by blast
  then have "\<lparr>block_position = v, block_type = t\<rparr> \<in> {\<lparr>block_position = P lx ly lz, block_type = t\<rparr> | lx ly lz.
        lx \<in> set xs \<and> ly \<in> set ys \<and> lz \<in> set zs \<and> \<not> C lx lz}"
    by blast
  then have "block_position \<lparr>block_position = v, block_type = t\<rparr> \<in> block_position ` {\<lparr>block_position = P lx ly lz, block_type = t\<rparr> | lx ly lz.
        lx \<in> set xs \<and> ly \<in> set ys \<and> lz \<in> set zs \<and> \<not> C lx lz}"
    by (rule imageI)
  then show "v \<in> block_position ` {\<lparr>block_position = P lx ly lz, block_type = t\<rparr> | lx ly lz.
        lx \<in> set xs \<and> ly \<in> set ys \<and> lz \<in> set zs \<and> \<not> C lx lz}"
    by simp
qed

lemma types_leafBlocks: "\<forall>b \<in> set (leafBlocks x y z h). block_type b = Leaves"
  unfolding leafBlocks_def by (rule nested_types)

lemma wood_leaves: "positionsOf Wood (leafBlocks x y z h) = []"
  using types_leafBlocks [of x y z h] by (auto simp: positionsOf_def filter_empty_conv)

lemma leaves_leaves: "positionsOf Leaves (leafBlocks x y z h) = map block_position (leafBlocks x y z h)"
  using types_leafBlocks [of x y z h] by (simp add: positionsOf_def)

lemma set_leafBlocks:
  "set (map block_position (leafBlocks x y z h)) =
     {\<lparr>X = x + of_int lx, Y = y + of_int h + of_int ly, Z = z + of_int lz\<rparr> | lx ly lz.
        lx \<in> {-2 .. 2} \<and> ly \<in> {-1 .. 2} \<and> lz \<in> {-2 .. 2} \<and> \<not> (\<bar>lx\<bar> = 2 \<and> \<bar>lz\<bar> = 2)}"
  unfolding leafBlocks_def nested_positions by (simp only: set_upto)

lemma upto_m2_2: "[-2 .. 2 :: int] = [-2, -1, 0, 1, 2]"
  by (simp add: upto.simps)

lemma upto_m1_2: "[-1 .. 2 :: int] = [-1, 0, 1, 2]"
  by (simp add: upto.simps)

lemma length_leafBlocks: "length (leafBlocks x y z h) = 84"
  by (simp add: leafBlocks_def upto_m2_2 upto_m1_2 del: upto_rec_numeral)

lemma distinct_leafBlocks: "distinct (map block_position (leafBlocks x y z h))"
  by (simp add: leafBlocks_def upto_m2_2 upto_m1_2 del: upto_rec_numeral)


text \<open>
  Claim C5. For every root \<open>(x, y, z)\<close> and every value \<open>Math.random\<close> returns (in
  \<open>[0, 1)\<close>), the trunk height \<open>h = 4 + floor(random * 3)\<close> is 4, 5 or 6, and
  \<open>generateTree\<close> keeps the blocks it was given and adds: exactly \<open>h\<close> wood blocks,
  at \<open>(x, y + i, z)\<close> for \<open>i = 0 .. h - 1\<close>; leaves at exactly the cells
  \<open>(x + lx, y + h + ly, z + lz)\<close> with \<open>lx, lz\<close> in \<open>-2 .. 2\<close> and \<open>ly\<close> in
  \<open>-1 .. 2\<close> except those with \<open>|lx| = 2\<close> and \<open>|lz| = 2\<close>, each cell once; so no
  leaf in the four corner columns; and nothing but wood and leaves.
\<close>

theorem generateTree_shape:
  assumes r: "0 \<le> random n \<and> random n < 1"
  shows "4 + \<lfloor>random n * 3\<rfloor> \<in> {4, 5, 6}
    \<and> snd (generateTree random (blocks, n) x y z) = Suc n
    \<and> take (length blocks) (fst (generateTree random (blocks, n) x y z)) = blocks
    \<and> positionsOf Wood (added blocks (fst (generateTree random (blocks, n) x y z)))
        = map (\<lambda>i. \<lparr>X = x, Y = y + of_int i, Z = z\<rparr>) [0 .. 4 + \<lfloor>random n * 3\<rfloor> - 1]
    \<and> int (length (positionsOf Wood (added blocks (fst (generateTree random (blocks, n) x y z)))))
        = 4 + \<lfloor>random n * 3\<rfloor>
    \<and> set (positionsOf Leaves (added blocks (fst (generateTree random (blocks, n) x y z))))
        = {\<lparr>X = x + of_int lx, Y = y + of_int (4 + \<lfloor>random n * 3\<rfloor>) + of_int ly, Z = z + of_int lz\<rparr>
           | lx ly lz. lx \<in> {-2 .. 2} \<and> ly \<in> {-1 .. 2} \<and> lz \<in> {-2 .. 2}
                       \<and> \<not> (\<bar>lx\<bar> = 2 \<and> \<bar>lz\<bar> = 2)}
    \<and> distinct (positionsOf Leaves (added blocks (fst (generateTree random (blocks, n) x y z))))
    \<and> (\<forall>v \<in> set (positionsOf Leaves (added blocks (fst (generateTree random (blocks, n) x y z)))).
          \<not> (\<bar>X v - x\<bar> = 2 \<and> \<bar>Z v - z\<bar> = 2))
    \<and> set (added blocks (fst (generateTree random (blocks, n) x y z)))
         \<subseteq> {b. block_type b = Wood \<or> block_type b = Leaves}"
proof -
  let ?h = "4 + \<lfloor>random n * 3\<rfloor>"
  let ?new = "added blocks (fst (generateTree random (blocks, n) x y z))"
  from r have "0 \<le> random n * 3" "random n * 3 < 3" by simp_all
  then have "0 \<le> \<lfloor>random n * 3\<rfloor>" "\<lfloor>random n * 3\<rfloor> < 3" by (simp_all add: floor_less_iff)
  then have "\<lfloor>random n * 3\<rfloor> = 0 \<or> \<lfloor>random n * 3\<rfloor> = 1 \<or> \<lfloor>random n * 3\<rfloor> = 2"
    by linarith
  then have h: "?h \<in> {4, 5, 6}" by auto
  have new: "?new = trunkBlocks x y z ?h @ leafBlocks x y z ?h"
    by (simp add: generateTree_blocks added_def)
  have wood: "positionsOf Wood ?new = map (\<lambda>i. \<lparr>X = x, Y = y + of_int i, Z = z\<rparr>) [0 .. ?h - 1]"
    by (simp only: new positionsOf_append wood_trunk wood_leaves append_Nil2)
  have len: "int (length (positionsOf Wood ?new)) = ?h"
    using h by (auto simp only: wood length_map length_upto)
  have leaves: "positionsOf Leaves ?new = map block_position (leafBlocks x y z ?h)"
    by (simp only: new positionsOf_append leaves_trunk leaves_leaves append_Nil)
  have lset: "set (positionsOf Leaves ?new)
        = {\<lparr>X = x + of_int lx, Y = y + of_int ?h + of_int ly, Z = z + of_int lz\<rparr>
           | lx ly lz. lx \<in> {-2 .. 2} \<and> ly \<in> {-1 .. 2} \<and> lz \<in> {-2 .. 2}
                       \<and> \<not> (\<bar>lx\<bar> = 2 \<and> \<bar>lz\<bar> = 2)}"
    by (simp only: leaves set_leafBlocks)
  have dist: "distinct (positionsOf Leaves ?new)"
    by (simp only: leaves distinct_leafBlocks)
  have corners: "\<forall>v \<in> set (positionsOf Leaves ?new). \<not> (\<bar>X v - x\<bar> = 2 \<and> \<bar>Z v - z\<bar> = 2)"
    unfolding lset by auto
  have types: "set ?new \<subseteq> {b. block_type b = Wood \<or> block_type b = Leaves}"
    using types_leafBlocks [of x y z ?h] by (auto simp: new trunkBlocks_def)
  have count: "snd (generateTree random (blocks, n) x y z) = Suc n"
    by (simp add: generateTree_blocks)
  have kept: "take (length blocks) (fst (generateTree random (blocks, n) x y z)) = blocks"
    by (simp add: generateTree_blocks)
  show ?thesis
    by (intro conjI h count kept wood len lset dist corners types)
qed


text \<open>
  The theorem for a tree rooted at the origin when \<open>Math.random\<close> returns 0.5: the
  trunk is five blocks high, the corner cell \<open>(2, 4, 2)\<close> of the lowest leaf layer has
  no leaf and its neighbour \<open>(2, 4, 1)\<close> has one.
\<close>

theorem generateTree_shape_witness:
  "positionsOf Wood (added [] (fst (generateTree (\<lambda>k. 1 / 2) ([], 0) 0 0 0)))
     = [\<lparr>X = 0, Y = 0, Z = 0\<rparr>, \<lparr>X = 0, Y = 1, Z = 0\<rparr>, \<lparr>X = 0, Y = 2, Z = 0\<rparr>,
        \<lparr>X = 0, Y = 3, Z = 0\<rparr>, \<lparr>X = 0, Y = 4, Z = 0\<rparr>]
   \<and> \<lparr>X = 2, Y = 4, Z = 2\<rparr>
        \<notin> set (positionsOf Leaves (added [] (fst (generateTree (\<lambda>k. 1 / 2) ([], 0) 0 0 0))))
   \<and> \<lparr>X = 2, Y = 4, Z = 1\<rparr>
        \<in> set (positionsOf Leaves (added [] (fst (generateTree (\<lambda>k. 1 / 2) ([], 0) 0 0 0))))"
proof -
  let ?new = "added [] (fst (generateTree (\<lambda>k. 1 / 2) ([], 0) 0 0 0))"
  have r: "0 \<le> (\<lambda>k::nat. 1 / 2 :: real) 0 \<and> (\<lambda>k::nat. 1 / 2 :: real) 0 < 1" by simp
  have h: "4 + \<lfloor>(1 / 2 :: real) * 3\<rfloor> = 5" by simp
  note t = generateTree_shape [OF r, of "[]" 0 0 0, unfolded h]
  from t have wood: "positionsOf Wood ?new = map (\<lambda>i. \<lparr>X = 0, Y = 0 + of_int i, Z = 0\<rparr>) [0 .. 5 - 1]"
    by blast
  from t have corners: "\<forall>v \<in> set (positionsOf Leaves ?new). \<not> (\<bar>X v - 0\<bar> = 2 \<and> \<bar>Z v - 0\<bar> = 2)"
    by blast
  from t have lset: "set (positionsOf Leaves ?new)
        = {\<lparr>X = 0 + of_int lx, Y = 0 + of_int 5 + of_int ly, Z = 0 + of_int lz\<rparr>
           | lx ly lz. lx \<in> {-2 .. 2} \<and> ly \<in> {-1 .. 2} \<and> lz \<in> {-2 .. 2}
                       \<and> \<not> (\<bar>lx\<bar> = 2 \<and> \<bar>lz\<bar> = 2)}"
    by blast
  have 1: "positionsOf Wood ?new
     = [\<lparr>X = 0, Y = 0, Z = 0\<rparr>, \<lparr>X = 0, Y = 1, Z = 0\<rparr>, \<lparr>X = 0, Y = 2, Z = 0\<rparr>,
        \<lparr>X = 0, Y = 3, Z = 0\<rparr>, \<lparr>X = 0, Y = 4, Z = 0\<rparr>]"
    unfolding wood by (simp add: upto.simps)
  have 2: "\<lparr>X = 2, Y = 4, Z = 2\<rparr> \<notin> set (positionsOf Leaves ?new)"
    using corners by force
  have "\<lparr>X = 0 + of_int 2, Y = 0 + of_int 5 + of_int (- 1), Z = 0 + of_int 1\<rparr>
        \<in> set (positionsOf Leaves ?new)"
    unfolding lset
    by (rule CollectI, intro exI [of _ 2] exI [of _ "- 1"] exI [of _ 1]) simp
  then have 3: "\<lparr>X = 2, Y = 4, Z = 1\<rparr> \<in> set (positionsOf Leaves ?new)" by simp
  from 1 2 3 show ?thesis by (intro conjI)
qed

section \<open>Terrain: theorems\<close>

lemma isGround_trunk: "filter isGround (trunkBlocks x y z h) = []"
  by (simp add: trunkBlocks_def isGround_def)

lemma isGround_leaves: "filter isGround (leafBlocks x y z h) = []"
  using types_leafBlocks [of x y z h] by (auto simp: filter_empty_conv isGround_def)

lemma isGround_groundMaterial: "isGround \<lparr>block_position = v, block_type = userDataType (groundMaterial y e)\<rparr>"
  by (simp add: isGround_def groundMaterial_def userDataType_def)

lemma isGround_column: "filter isGround (columnBlocks x z e) = columnBlocks x z e"
  by (simp add: columnBlocks_def isGround_groundMaterial)

lemma generateColumn_ground:
  "filter isGround (fst (generateColumn noise2D random ht x g z))
     = filter isGround (fst g) @ columnBlocks x z (elevationOf noise2D ht x z)"
proof -
  let ?e = "elevationOf noise2D ht x z"
  have ground: "foldl (\<lambda>bs y. addBlock bs \<lparr>X = of_int x, Y = of_int y, Z = of_int z\<rparr>
                       (groundMaterial y ?e)) (fst g) [0 .. ?e]
      = fst g @ columnBlocks x z ?e"
    by (subst foldl_appends [where F = "\<lambda>y. [\<lparr>block_position = \<lparr>X = of_int x, Y = of_int y, Z = of_int z\<rparr>,
               block_type = userDataType (groundMaterial y ?e)\<rparr>]"])
       (simp_all add: addBlock_def columnBlocks_def concat_map_singleton)
  show ?thesis
    by (simp add: generateColumn_def Let_def ground generateTree_blocks isGround_trunk
        isGround_leaves isGround_column del: upto.simps)
qed

lemma foldl_ground:
  assumes "\<And>g a. filter isGround (fst (step g a)) = filter isGround (fst g) @ F a"
  shows "filter isGround (fst (foldl step g xs)) = filter isGround (fst g) @ concat (map F xs)"
  using assms by (induction xs arbitrary: g) simp_all

lemma generateTerrain_ground:
  "filter isGround (fst (generateTerrain noise2D random g))
     = filter isGround (fst g)
       @ concat (map (\<lambda>x. concat (map (\<lambda>z. columnBlocks x z (elevationOf noise2D 8 x z))
                                     [-24 .. 23])) [-24 .. 23])"
proof -
  have b: "- (48 div 2) = (-24 :: int)" "48 div 2 - 1 = (23 :: int)" by simp_all
  have inner: "\<And>g x. filter isGround (fst (foldl (generateColumn noise2D random 8 x) g [-24 .. 23]))
      = filter isGround (fst g)
        @ concat (map (\<lambda>z. columnBlocks x z (elevationOf noise2D 8 x z)) [-24 .. 23])"
    by (rule foldl_ground) (rule generateColumn_ground)
  show ?thesis
    unfolding generateTerrain_def Let_def b
    by (rule foldl_ground) (rule inner)
qed


lemma ground_columns:
  "b \<in> set (filter isGround (World_constructor noise2D random))
   \<longleftrightarrow> (\<exists>x \<in> {-24 .. 23}. \<exists>z \<in> {-24 .. 23}.
          b \<in> set (columnBlocks x z (elevationOf noise2D 8 x z)))"
  unfolding World_constructor_def generateTerrain_ground
  by (simp del: upto.simps upto_rec_numeral)

lemma column_member:
  "\<lparr>block_position = \<lparr>X = of_int x, Y = of_int y, Z = of_int z\<rparr>, block_type = t\<rparr>
      \<in> set (columnBlocks x' z' e)
   \<longleftrightarrow> x = x' \<and> z = z' \<and> 0 \<le> y \<and> y \<le> e \<and> t = userDataType (groundMaterial y e)"
  by (auto simp: columnBlocks_def)

lemma ground_member:
  "\<lparr>block_position = \<lparr>X = of_int x, Y = of_int y, Z = of_int z\<rparr>, block_type = t\<rparr>
      \<in> set (filter isGround (World_constructor noise2D random))
   \<longleftrightarrow> x \<in> {-24 .. 23} \<and> z \<in> {-24 .. 23} \<and> 0 \<le> y \<and> y \<le> elevationOf noise2D 8 x z
       \<and> t = userDataType (groundMaterial y (elevationOf noise2D 8 x z))"
  unfolding ground_columns column_member by blast

lemma ground_cells:
  "b \<in> set (filter isGround (World_constructor noise2D random)) \<Longrightarrow>
     \<exists>x \<in> {-24 .. 23}. \<exists>z \<in> {-24 .. 23}. \<exists>y \<in> {0 .. elevationOf noise2D 8 x z}.
        block_position b = \<lparr>X = of_int x, Y = of_int y, Z = of_int z\<rparr>"
  unfolding ground_columns by (auto simp: columnBlocks_def)

lemma groundMaterial_cases:
  "userDataType (groundMaterial y e) = Grass \<longleftrightarrow> y = e"
  "userDataType (groundMaterial y e) = Dirt \<longleftrightarrow> e - 3 < y \<and> y \<noteq> e"
  "userDataType (groundMaterial y e) = Stone \<longleftrightarrow> y \<le> e - 3 \<and> y \<noteq> e"
  by (auto simp: groundMaterial_def userDataType_def)

text \<open>
  Claim C4. For every integer \<open>(x, z)\<close> of the generated square (\<open>-24 .. 23\<close> on both
  axes, \<open>size = 48\<close>), with \<open>elevation = floor((noise(x * 0.05, z * 0.05) + 1) * 8 / 2)\<close>,
  the world after generation has a grass block at \<open>(x, y, z)\<close> exactly for
  \<open>y = elevation\<close> (when that is not negative), a dirt block exactly for
  \<open>0 \<le> y\<close>, \<open>elevation - 3 < y < elevation\<close>, and a stone block exactly for
  \<open>0 \<le> y \<le> elevation - 3\<close>; and every grass, dirt or stone block of the world sits
  in one of these columns at a height \<open>0 .. elevation\<close>. This holds for every noise
  function and whatever trees the random source plants: trees add wood and leaves only.
\<close>

theorem generateTerrain_columns:
  "(\<forall>x \<in> {-24 .. 23}. \<forall>z \<in> {-24 .. 23}.
      elevationOf noise2D 8 x z = \<lfloor>(noise2D (of_int x * 0.05) (of_int z * 0.05) + 1) * 8 / 2\<rfloor>
      \<and> (\<forall>y.
        (\<lparr>block_position = \<lparr>X = of_int x, Y = of_int y, Z = of_int z\<rparr>, block_type = Grass\<rparr>
           \<in> set (World_constructor noise2D random)
         \<longleftrightarrow> 0 \<le> y \<and> y = elevationOf noise2D 8 x z)
      \<and> (\<lparr>block_position = \<lparr>X = of_int x, Y = of_int y, Z = of_int z\<rparr>, block_type = Dirt\<rparr>
           \<in> set (World_constructor noise2D random)
         \<longleftrightarrow> 0 \<le> y \<and> elevationOf noise2D 8 x z - 3 < y \<and> y < elevationOf noise2D 8 x z)
      \<and> (\<lparr>block_position = \<lparr>X = of_int x, Y = of_int y, Z = of_int z\<rparr>, block_type = Stone\<rparr>
           \<in> set (World_constructor noise2D random)
         \<longleftrightarrow> 0 \<le> y \<and> y \<le> elevationOf noise2D 8 x z - 3)))
   \<and> (\<forall>b \<in> set (World_constructor noise2D random). isGround b \<longrightarrow>
        (\<exists>x \<in> {-24 .. 23}. \<exists>z \<in> {-24 .. 23}. \<exists>y \<in> {0 .. elevationOf noise2D 8 x z}.
           block_position b = \<lparr>X = of_int x, Y = of_int y, Z = of_int z\<rparr>))"
proof (intro conjI ballI allI impI)
  fix x z :: int
  show "elevationOf noise2D 8 x z = \<lfloor>(noise2D (of_int x * 0.05) (of_int z * 0.05) + 1) * 8 / 2\<rfloor>"
    by (simp add: elevationOf_def)
next
  fix x z y :: int
  assume r: "x \<in> {-24 .. 23}" "z \<in> {-24 .. 23}"
  let ?W = "World_constructor noise2D random"
  let ?e = "elevationOf noise2D 8 x z"
  have g: "\<And>t. t = Grass \<or> t = Dirt \<or> t = Stone \<Longrightarrow>
      \<lparr>block_position = \<lparr>X = of_int x, Y = of_int y, Z = of_int z\<rparr>, block_type = t\<rparr> \<in> set ?W
      \<longleftrightarrow> 0 \<le> y \<and> y \<le> ?e \<and> t = userDataType (groundMaterial y ?e)"
  proof -
    fix t :: BlockType
    assume t: "t = Grass \<or> t = Dirt \<or> t = Stone"
    then have "\<lparr>block_position = \<lparr>X = of_int x, Y = of_int y, Z = of_int z\<rparr>, block_type = t\<rparr> \<in> set ?W
      \<longleftrightarrow> \<lparr>block_position = \<lparr>X = of_int x, Y = of_int y, Z = of_int z\<rparr>, block_type = t\<rparr>
           \<in> set (filter isGround ?W)"
      by (simp add: isGround_def)
    with r show "\<lparr>block_position = \<lparr>X = of_int x, Y = of_int y, Z = of_int z\<rparr>, block_type = t\<rparr> \<in> set ?W
      \<longleftrightarrow> 0 \<le> y \<and> y \<le> ?e \<and> t = userDataType (groundMaterial y ?e)"
      by (simp only: ground_member simp_thms)
  qed
  show "\<lparr>block_position = \<lparr>X = of_int x, Y = of_int y, Z = of_int z\<rparr>, block_type = Grass\<rparr> \<in> set ?W
         \<longleftrightarrow> 0 \<le> y \<and> y = ?e"
    using g [of Grass] groundMaterial_cases(1) [of y ?e] by auto
  show "\<lparr>block_position = \<lparr>X = of_int x, Y = of_int y, Z = of_int z\<rparr>, block_type = Dirt\<rparr> \<in> set ?W
         \<longleftrightarrow> 0 \<le> y \<and> ?e - 3 < y \<and> y < ?e"
    using g [of Dirt] groundMaterial_cases(2) [of y ?e] by auto
  show "\<lparr>block_position = \<lparr>X = of_int x, Y = of_int y, Z = of_int z\<rparr>, block_type = Stone\<rparr> \<in> set ?W
         \<longleftrightarrow> 0 \<le> y \<and> y \<le> ?e - 3"
    using g [of Stone] groundMaterial_cases(3) [of y ?e] by auto
next
  fix b
  assume "b \<in> set (World_constructor noise2D random)" "isGround b"
  then have "b \<in> set (filter isGround (World_constructor noise2D random))" by simp
  then show "\<exists>x \<in> {-24 .. 23}. \<exists>z \<in> {-24 .. 23}. \<exists>y \<in> {0 .. elevationOf noise2D 8 x z}.
           block_position b = \<lparr>X = of_int x, Y = of_int y, Z = of_int z\<rparr>"
    by (rule ground_cells)
qed


text \<open>
  The theorem for the flat noise 0 (elevation 4 everywhere) and a random source that
  plants no tree, at the column \<open>(0, 0)\<close>: grass on top, dirt below it, stone at
  height 1, nothing of the ground above the top; and the grass block of the column is
  one of the cells of the columns.
\<close>

theorem generateTerrain_columns_witness:
  "elevationOf (\<lambda>a b. 0) 8 0 0 = 4
   \<and> \<lparr>block_position = \<lparr>X = 0, Y = 4, Z = 0\<rparr>, block_type = Grass\<rparr>
        \<in> set (World_constructor (\<lambda>a b. 0) (\<lambda>k. 1 / 2))
   \<and> \<lparr>block_position = \<lparr>X = 0, Y = 3, Z = 0\<rparr>, block_type = Dirt\<rparr>
        \<in> set (World_constructor (\<lambda>a b. 0) (\<lambda>k. 1 / 2))
   \<and> \<lparr>block_position = \<lparr>X = 0, Y = 1, Z = 0\<rparr>, block_type = Stone\<rparr>
        \<in> set (World_constructor (\<lambda>a b. 0) (\<lambda>k. 1 / 2))
   \<and> \<lparr>block_position = \<lparr>X = 0, Y = 1, Z = 0\<rparr>, block_type = Dirt\<rparr>
        \<notin> set (World_constructor (\<lambda>a b. 0) (\<lambda>k. 1 / 2))
   \<and> \<lparr>block_position = \<lparr>X = 0, Y = 5, Z = 0\<rparr>, block_type = Grass\<rparr>
        \<notin> set (World_constructor (\<lambda>a b. 0) (\<lambda>k. 1 / 2))
   \<and> (\<exists>x \<in> {-24 .. 23}. \<exists>z \<in> {-24 .. 23}. \<exists>y \<in> {0 .. elevationOf (\<lambda>a b. 0) 8 x z}.
         \<lparr>X = 0, Y = 4, Z = 0\<rparr> = \<lparr>X = real_of_int x, Y = real_of_int y, Z = real_of_int z\<rparr>)"
proof -
  let ?W = "World_constructor (\<lambda>a b. 0) (\<lambda>k. 1 / 2)"
  let ?top = "\<lparr>block_position = \<lparr>X = 0, Y = 4, Z = 0\<rparr>, block_type = Grass\<rparr>"
  have e: "elevationOf (\<lambda>a b. 0) 8 0 0 = 4" by (simp add: elevationOf_def)
  have r: "(0 :: int) \<in> {-24 .. 23}" by simp
  note c = generateTerrain_columns [of "\<lambda>a b. 0" "\<lambda>k. 1 / 2", THEN conjunct1,
      THEN bspec, OF r, THEN bspec, OF r, THEN conjunct2, unfolded e]
  from c [THEN spec, of 4] c [THEN spec, of 3] c [THEN spec, of 1] c [THEN spec, of 5] e
  have cells: "elevationOf (\<lambda>a b. 0) 8 0 0 = 4
   \<and> ?top \<in> set ?W
   \<and> \<lparr>block_position = \<lparr>X = 0, Y = 3, Z = 0\<rparr>, block_type = Dirt\<rparr> \<in> set ?W
   \<and> \<lparr>block_position = \<lparr>X = 0, Y = 1, Z = 0\<rparr>, block_type = Stone\<rparr> \<in> set ?W
   \<and> \<lparr>block_position = \<lparr>X = 0, Y = 1, Z = 0\<rparr>, block_type = Dirt\<rparr> \<notin> set ?W
   \<and> \<lparr>block_position = \<lparr>X = 0, Y = 5, Z = 0\<rparr>, block_type = Grass\<rparr> \<notin> set ?W"
    by simp
  then have top: "?top \<in> set ?W" by blast
  have g: "isGround ?top" by (simp add: isGround_def)
  from generateTerrain_columns [of "\<lambda>a b. 0" "\<lambda>k. 1 / 2", THEN conjunct2, THEN bspec, OF top] g
  have "\<exists>x \<in> {-24 .. 23}. \<exists>z \<in> {-24 .. 23}. \<exists>y \<in> {0 .. elevationOf (\<lambda>a b. 0) 8 x z}.
         \<lparr>X = 0, Y = 4, Z = 0\<rparr> = \<lparr>X = real_of_int x, Y = real_of_int y, Z = real_of_int z\<rparr>"
    by simp
  with cells show ?thesis by blast
qed

section \<open>Physics: theorems\<close>

lemmas physics_defs = update_def handleCollisions_def applyGravity_def integrate_def collideBlock_def
  penetration_def setFromObject_def setFromCenterAndSize_def intersectsBox_def currentGravity_def
  fixedDelta_def baseGravity_def maxGravity_def gravityAcceleration_def height_def width_def
  raiseHighest_def playerBoxAt_def

lemma fallTime_collideBlock: "fallTime (fst (collideBlock playerBox st block)) = fallTime (fst st)"
  by (simp add: collideBlock_def Let_def)

lemma fallTime_collisions:
  "fallTime (fst (foldl (collideBlock playerBox) st blocks)) = fallTime (fst st)"
  by (induction blocks arbitrary: st) (simp_all add: fallTime_collideBlock)

lemma fallTime_handleCollisions: "fallTime (handleCollisions w p) = fallTime p"
  by (cases w) (simp_all add: handleCollisions_def Let_def fallTime_collisions)

lemma fallTime_update:
  "fallTime (update w delta p) = (if onGround p then 0 else fallTime p + 1 / 60)"
  by (simp add: update_def Let_def fallTime_handleCollisions integrate_def applyGravity_def
      fixedDelta_def)

lemma update_no_blocks:
  "\<not> onGround p \<Longrightarrow> update (Some []) delta p =
     (let q = integrate (applyGravity p)
      in q\<lparr>onGround := False,
           cameraPosition := \<lparr>X = X (position q), Y = Y (position q) + 1, Z = Z (position q)\<rparr>\<rparr>)"
  by (simp add: update_def handleCollisions_def Let_def)

lemma free_fall:
  "\<not> onGround p \<Longrightarrow>
     \<not> onGround (ticks (Some []) n p) \<and> fallTime (ticks (Some []) n p) = fallTime p + of_nat n / 60"
proof (induction n)
  case 0
  then show ?case by simp
next
  case (Suc n)
  then show ?case
    by (simp add: update_no_blocks Let_def integrate_def applyGravity_def fixedDelta_def
        add_divide_distrib)
qed

text \<open>
  The player spawned above the single stone block (at \<open>(0, 2, 0)\<close>) is still in the
  air after 15 ticks and lands on the 16th.
\<close>

lemma spawn_15:
  "ticks (Some landingWorld) 15 (spawnPlayer landingWorld)
   = Player_constructor\<lparr>position := \<lparr>X = 0, Y = 3031 / 2700, Z = 0\<rparr>,
        velocity := \<lparr>X = 0, Y = - (403 / 60), Z = 0\<rparr>, fallTime := 1 / 4,
        cameraPosition := \<lparr>X = 0, Y = 5731 / 2700, Z = 0\<rparr>\<rparr>"
  by (simp add: eval_nat_numeral landingWorld_def spawnPlayer_def findSafeSpawnPosition_def
      Player_constructor_def physics_defs Let_def)

lemma spawn_16:
  "ticks (Some landingWorld) 16 (spawnPlayer landingWorld)
   = Player_constructor\<lparr>position := \<lparr>X = 0, Y = 11 / 10, Z = 0\<rparr>, onGround := True,
        fallTime := 4 / 15, cameraPosition := \<lparr>X = 0, Y = 21 / 10, Z = 0\<rparr>\<rparr>"
proof -
  have "ticks (Some landingWorld) 16 (spawnPlayer landingWorld)
        = update (Some landingWorld) (1 / 60) (ticks (Some landingWorld) 15 (spawnPlayer landingWorld))"
    by (simp add: eval_nat_numeral)
  then show ?thesis
    unfolding spawn_15
    by (simp add: landingWorld_def Player_constructor_def physics_defs Let_def)
qed

text \<open>
  Claim C3, as the code has it. The fall time is reset at the start of a tick that
  begins on the ground, not in the collision code that sets the ground flag: a tick
  that starts grounded ends with \<open>fallTime = 0\<close>, a tick that starts in the air ends
  with the fall time grown by exactly 1/60 (so it does not decrease across airborne
  ticks), and from the spawn state the fall time is never negative. After the tick on
  which the player lands, the flag is set and the fall time is still the length of the
  fall; it is 0 one tick later.
\<close>

theorem fallTime_next_tick:
  "(onGround p \<longrightarrow> fallTime (update w delta p) = 0)
   \<and> (\<not> onGround p \<longrightarrow> fallTime (update w delta p) = fallTime p + 1 / 60
                        \<and> fallTime p \<le> fallTime (update w delta p))
   \<and> (\<forall>n. 0 \<le> fallTime (ticks w n (spawnPlayer blocks))
         \<and> (onGround (ticks w n (spawnPlayer blocks))
              \<longrightarrow> fallTime (ticks w (Suc n) (spawnPlayer blocks)) = 0)
         \<and> (\<not> onGround (ticks w n (spawnPlayer blocks))
              \<longrightarrow> fallTime (ticks w (Suc n) (spawnPlayer blocks))
                    = fallTime (ticks w n (spawnPlayer blocks)) + 1 / 60
                  \<and> fallTime (ticks w n (spawnPlayer blocks))
                    \<le> fallTime (ticks w (Suc n) (spawnPlayer blocks))))"
proof -
  have nonneg: "0 \<le> fallTime (ticks w n (spawnPlayer blocks))" for n
  proof (induction n)
    case 0
    show ?case by (simp add: spawnPlayer_def Player_constructor_def Let_def)
  next
    case (Suc n)
    then show ?case by (simp add: fallTime_update)
  qed
  show ?thesis
    by (simp add: fallTime_update nonneg)
qed

text \<open>
  The theorem for one tick from the state at rest on the block and one from the state
  dropped at \<open>(0, 5, 0)\<close>, and for the player spawned above the single stone block: in
  the air after tick 15 (so tick 16 adds 1/60 to the fall time 1/4), on the ground
  after tick 16 (so the fall time is 0 after tick 17).
\<close>

theorem fallTime_next_tick_witness:
  "fallTime (update (Some landingWorld) (1 / 60) landedAvatar) = 0
   \<and> fallTime (update (Some landingWorld) (1 / 60) landingAvatar) = 1 / 60
   \<and> fallTime (ticks (Some landingWorld) 17 (spawnPlayer landingWorld)) = 0
   \<and> fallTime (ticks (Some landingWorld) 16 (spawnPlayer landingWorld)) = 1 / 4 + 1 / 60
   \<and> onGround (ticks (Some landingWorld) 16 (spawnPlayer landingWorld))
   \<and> \<not> onGround (ticks (Some landingWorld) 15 (spawnPlayer landingWorld))"
proof -
  have g: "onGround (ticks (Some landingWorld) 16 (spawnPlayer landingWorld))"
    and a: "\<not> onGround (ticks (Some landingWorld) 15 (spawnPlayer landingWorld))"
    and f: "fallTime (ticks (Some landingWorld) 15 (spawnPlayer landingWorld)) = 1 / 4"
    by (simp_all add: spawn_16 spawn_15 Player_constructor_def)
  have n: "Suc 16 = 17" "Suc 15 = 16" by simp_all
  have lg: "onGround landedAvatar" and la: "\<not> onGround landingAvatar"
    and lf: "fallTime landingAvatar = 0"
    by (simp_all add: landedAvatar_def landingAvatar_def Player_constructor_def)
  from fallTime_next_tick [of landedAvatar "Some landingWorld" "1 / 60" landingWorld] lg
  have 3: "fallTime (update (Some landingWorld) (1 / 60) landedAvatar) = 0" by blast
  from fallTime_next_tick [of landingAvatar "Some landingWorld" "1 / 60" landingWorld] la
  have "fallTime (update (Some landingWorld) (1 / 60) landingAvatar) = fallTime landingAvatar + 1 / 60"
    by blast
  then have 4: "fallTime (update (Some landingWorld) (1 / 60) landingAvatar) = 1 / 60"
    by (simp add: lf)
  note t = fallTime_next_tick [of landedAvatar "Some landingWorld" "1 / 60" landingWorld,
      THEN conjunct2, THEN conjunct2]
  from t [THEN spec, of 16] g have 1: "fallTime (ticks (Some landingWorld) (Suc 16) (spawnPlayer landingWorld)) = 0"
    by blast
  from t [THEN spec, of 15] a have 2: "fallTime (ticks (Some landingWorld) (Suc 15) (spawnPlayer landingWorld))
      = fallTime (ticks (Some landingWorld) 15 (spawnPlayer landingWorld)) + 1 / 60"
    by blast
  from 3 4 1 2 g a show ?thesis unfolding n f by (intro conjI)
qed

text \<open>
  Claim C3 as stated fails on the landing tick: the player spawned above the single
  stone block is in the air after tick 15 and on the ground after tick 16, and its
  fall time is then 4/15, not 0.
\<close>

theorem fallTime_landing_counterexample:
  "\<not> onGround (ticks (Some landingWorld) 15 (spawnPlayer landingWorld))
   \<and> onGround (ticks (Some landingWorld) 16 (spawnPlayer landingWorld))
   \<and> fallTime (ticks (Some landingWorld) 16 (spawnPlayer landingWorld)) = 4 / 15
   \<and> fallTime (ticks (Some landingWorld) 16 (spawnPlayer landingWorld)) \<noteq> 0"
  by (simp add: spawn_16 spawn_15 Player_constructor_def)

section \<open>The collision pass: theorems\<close>

text \<open>
  \<open>handleCollisions\<close> with a world is the loop followed by the check of the ground
  flag, and the loop over a list that ends, or continues, after a block is the loop
  body for that block applied to the state the blocks before it leave.
\<close>

lemma handleCollisions_pass:
  "handleCollisions (Some blocks) p = groundCheck (afterBlocks p blocks)"
  by (simp add: handleCollisions_def afterBlocks_def groundCheck_def Let_def)



lemma update_fields:
  "position (update w delta p) = position (handleCollisions w (moved p))"
  "velocity (update w delta p) = velocity (handleCollisions w (moved p))"
  "onGround (update w delta p) = onGround (handleCollisions w (moved p))"
  by (simp_all add: update_def moved_def Let_def)


text \<open>
  A block that is not resolved along y leaves the y coordinates of the position and
  of the velocity, the ground flag and \<open>highestBlockY\<close> as they are.
\<close>

lemma frame_step:
  assumes "\<not> verticalHit playerBox block"
  shows "Y (position (fst (collideBlock playerBox st block))) = Y (position (fst st))"
    and "Y (velocity (fst (collideBlock playerBox st block))) = Y (velocity (fst st))"
    and "onGround (fst (collideBlock playerBox st block)) = onGround (fst st)"
    and "snd (collideBlock playerBox st block) = snd st"
  using assms by (simp_all add: collideBlock_def verticalHit_def Let_def)

lemma frame_pass:
  assumes "list_all (\<lambda>b. \<not> verticalHit playerBox b) blocks"
  shows "Y (position (fst (foldl (collideBlock playerBox) st blocks))) = Y (position (fst st))
       \<and> Y (velocity (fst (foldl (collideBlock playerBox) st blocks))) = Y (velocity (fst st))
       \<and> onGround (fst (foldl (collideBlock playerBox) st blocks)) = onGround (fst st)
       \<and> snd (foldl (collideBlock playerBox) st blocks) = snd st"
  using assms by (induction blocks arbitrary: st) (simp_all add: frame_step)

lemma pass_before:
  assumes "noVerticalHit (Some pre) q"
  shows "Y (position (fst (afterBlocks q pre))) = Y (position q)"
    and "Y (velocity (fst (afterBlocks q pre))) = Y (velocity q)"
    and "snd (afterBlocks q pre) = None"
proof -
  from assms have "list_all (\<lambda>b. \<not> verticalHit (playerBoxAt (position q)) b) pre"
    by (simp add: noVerticalHit_def)
  from frame_pass [OF this, of "(q, None)"]
  show "Y (position (fst (afterBlocks q pre))) = Y (position q)"
    and "Y (velocity (fst (afterBlocks q pre))) = Y (velocity q)"
    and "snd (afterBlocks q pre) = None"
    by (simp_all add: afterBlocks_def)
qed

text \<open>
  Whatever the blocks, a collision step and so the whole of \<open>handleCollisions\<close>
  leaves \<open>velocity.y\<close> as it is or sets it to 0.
\<close>

lemma vy_step:
  "Y (velocity (fst (collideBlock playerBox st block))) = Y (velocity (fst st))
   \<or> Y (velocity (fst (collideBlock playerBox st block))) = 0"
  by (simp add: collideBlock_def Let_def min_def)

lemma vy_pass:
  "Y (velocity (fst (foldl (collideBlock playerBox) st blocks))) = Y (velocity (fst st))
   \<or> Y (velocity (fst (foldl (collideBlock playerBox) st blocks))) = 0"
proof (induction blocks arbitrary: st)
  case Nil
  show ?case by simp
next
  case (Cons b bs)
  from Cons.IH [of "collideBlock playerBox st b"] vy_step [of playerBox st b]
  show ?case by auto
qed

lemma velocity_groundCheck: "velocity (groundCheck st) = velocity (fst st)"
  by (simp add: groundCheck_def)

lemma vy_handleCollisions:
  "Y (velocity (handleCollisions w q)) = Y (velocity q) \<or> Y (velocity (handleCollisions w q)) = 0"
proof (cases w)
  case None
  then show ?thesis by (simp add: handleCollisions_def)
next
  case (Some blocks)
  with vy_pass [of "playerBoxAt (position q)" "(q, None)" blocks] show ?thesis
    by (simp add: handleCollisions_pass velocity_groundCheck afterBlocks_def)
qed

lemma no_hit_handleCollisions:
  assumes "noVerticalHit w q"
  shows "Y (velocity (handleCollisions w q)) = Y (velocity q)"
proof (cases w)
  case None
  then show ?thesis by (simp add: handleCollisions_def)
next
  case (Some blocks)
  with assms have "noVerticalHit (Some blocks) q" by simp
  from pass_before(2) [OF this] Some show ?thesis
    by (simp add: handleCollisions_pass velocity_groundCheck)
qed




















section \<open>Gravity: theorems\<close>

lemma velocity_integrate: "velocity (integrate q) = velocity q"
  by (simp add: integrate_def)

lemma gravity_block:
  "\<not> onGround p \<Longrightarrow> Y (velocity (applyGravity p))
      = Y (velocity p) - min (25 + (fallTime p + 1 / 60) * 14) 35 * (1 / 60)"
  "onGround p \<Longrightarrow> velocity (applyGravity p) = velocity p"
  by (simp_all add: applyGravity_def fixedDelta_def currentGravity_def baseGravity_def
      gravityAcceleration_def maxGravity_def Let_def)

text \<open>
  The landing scenario, tick by tick: the player is still falling after 31 ticks and
  is on the block after 32.
\<close>

lemma landing_31:
  "ticks (Some landingWorld) 31 landingAvatar
   = Player_constructor\<lparr>position := \<lparr>X = 0, Y = 8113 / 6750, Z = 0\<rparr>,
        velocity := \<lparr>X = 0, Y = - (13361 / 900), Z = 0\<rparr>, fallTime := 31 / 60,
        cameraPosition := \<lparr>X = 0, Y = 14863 / 6750, Z = 0\<rparr>\<rparr>"
  by (simp add: eval_nat_numeral landingWorld_def landingAvatar_def
      Player_constructor_def physics_defs Let_def)

lemma landing_32:
  "ticks (Some landingWorld) 32 landingAvatar
   = Player_constructor\<lparr>position := \<lparr>X = 0, Y = 11 / 10, Z = 0\<rparr>, onGround := True,
        fallTime := 8 / 15, cameraPosition := \<lparr>X = 0, Y = 21 / 10, Z = 0\<rparr>\<rparr>"
proof -
  have "ticks (Some landingWorld) 32 landingAvatar
        = update (Some landingWorld) (1 / 60) (ticks (Some landingWorld) 31 landingAvatar)"
    by (simp add: eval_nat_numeral)
  then show ?thesis
    unfolding landing_31
    by (simp add: landingWorld_def Player_constructor_def physics_defs Let_def)
qed

text \<open>
  Claim C2, as the code has it. On every tick of \<open>update\<close> that starts in the air,
  in any world, the fall time grows by the fixed step 1/60; the gravity of the tick is
  \<open>min(25 + fallTime * 14, 35)\<close> for the fall time just increased, never above 35;
  the gravity block takes that gravity times 1/60 off \<open>velocity.y\<close>, which is the
  value the player enters the collision pass with. At the end of the tick
  \<open>velocity.y\<close> is that lowered value or 0, and it is the lowered value whenever no
  block is resolved along y in the pass. In a world without blocks this holds on each
  of any number of ticks in a row, all of which start in the air. On every tick that
  starts on the ground the gravity block leaves the velocity as it is; at the end of
  the tick \<open>velocity.y\<close> is unchanged or 0, and unchanged whenever no block is
  resolved along y.
\<close>

theorem gravity_per_tick:
  "(\<not> onGround p \<longrightarrow>
       fallTime (update w delta p) = fallTime p + 1 / 60
     \<and> min (25 + fallTime (update w delta p) * 14) 35 \<le> 35
     \<and> Y (velocity (moved p))
         = Y (velocity p) - min (25 + fallTime (update w delta p) * 14) 35 * (1 / 60)
     \<and> (Y (velocity (update w delta p))
           = Y (velocity p) - min (25 + fallTime (update w delta p) * 14) 35 * (1 / 60)
         \<or> Y (velocity (update w delta p)) = 0)
     \<and> (noVerticalHit w (moved p) \<longrightarrow>
          Y (velocity (update w delta p))
            = Y (velocity p) - min (25 + fallTime (update w delta p) * 14) 35 * (1 / 60))
     \<and> (\<forall>n. \<not> onGround (ticks (Some []) n p)
            \<and> fallTime (ticks (Some []) (Suc n) p) = fallTime p + of_nat (Suc n) / 60
            \<and> Y (velocity (ticks (Some []) (Suc n) p))
                = Y (velocity (ticks (Some []) n p))
                  - min (25 + fallTime (ticks (Some []) (Suc n) p) * 14) 35 * (1 / 60)))
   \<and> (onGround p \<longrightarrow>
       velocity (moved p) = velocity p
     \<and> (Y (velocity (update w delta p)) = Y (velocity p) \<or> Y (velocity (update w delta p)) = 0)
     \<and> (noVerticalHit w (moved p) \<longrightarrow>
          Y (velocity (update w delta p)) = Y (velocity p)))"
proof (intro conjI impI allI)
  assume a: "\<not> onGround p"
  show ft: "fallTime (update w delta p) = fallTime p + 1 / 60"
    using a by (simp add: fallTime_update)
  show "min (25 + fallTime (update w delta p) * 14) 35 \<le> 35" by simp
  show g: "Y (velocity (moved p))
         = Y (velocity p) - min (25 + fallTime (update w delta p) * 14) 35 * (1 / 60)"
    using gravity_block(1) [OF a] by (simp only: ft velocity_integrate moved_def)
  show "Y (velocity (update w delta p))
           = Y (velocity p) - min (25 + fallTime (update w delta p) * 14) 35 * (1 / 60)
         \<or> Y (velocity (update w delta p)) = 0"
    using vy_handleCollisions [of w "moved p"] by (simp only: update_fields g [symmetric])
  show "Y (velocity (update w delta p))
            = Y (velocity p) - min (25 + fallTime (update w delta p) * 14) 35 * (1 / 60)"
    if "noVerticalHit w (moved p)"
    using no_hit_handleCollisions [OF that] by (simp only: update_fields g [symmetric])
  fix n
  let ?s = "ticks (Some []) n p"
  from free_fall [OF a, of n] have s: "\<not> onGround ?s" "fallTime ?s = fallTime p + of_nat n / 60"
    by simp_all
  show "\<not> onGround ?s" by (rule s)
  show "fallTime (ticks (Some []) (Suc n) p) = fallTime p + of_nat (Suc n) / 60"
    using free_fall [OF a, of "Suc n"] by simp
  show "Y (velocity (ticks (Some []) (Suc n) p))
                = Y (velocity ?s) - min (25 + fallTime (ticks (Some []) (Suc n) p) * 14) 35 * (1 / 60)"
    using s by (simp add: update_no_blocks Let_def integrate_def applyGravity_def fixedDelta_def
        currentGravity_def baseGravity_def gravityAcceleration_def maxGravity_def)
next
  assume g: "onGround p"
  show v: "velocity (moved p) = velocity p"
    using gravity_block(2) [OF g] by (simp only: velocity_integrate moved_def)
  show "Y (velocity (update w delta p)) = Y (velocity p) \<or> Y (velocity (update w delta p)) = 0"
    using vy_handleCollisions [of w "moved p"] by (simp only: update_fields v)
  show "Y (velocity (update w delta p)) = Y (velocity p)" if "noVerticalHit w (moved p)"
    using no_hit_handleCollisions [OF that] by (simp only: update_fields v)
qed

text \<open>
  The theorem on the first tick of the landing scenario, where the player is far
  above the block (the fall time becomes 1/60 and \<open>velocity.y\<close> goes from 0 to
  \<open>-(25 + 14/60) / 60 = -757/1800\<close>); on tick 601 of a fall with no block, where the
  gravity is clamped at 35 and \<open>velocity.y\<close> loses \<open>35/60 = 7/12\<close>; and for a player
  flagged on the ground far above the two blocks of the low ceiling with
  \<open>velocity.y = -2\<close>, which the tick leaves at -2.
\<close>

theorem gravity_per_tick_witness:
  "Y (velocity (update (Some landingWorld) (1 / 60) landingAvatar)) = - (757 / 1800)
   \<and> fallTime (update (Some landingWorld) (1 / 60) landingAvatar) = 1 / 60
   \<and> Y (velocity (ticks (Some []) 601 Player_constructor))
       = Y (velocity (ticks (Some []) 600 Player_constructor)) - 7 / 12
   \<and> Y (velocity (update (Some lowCeilingWorld) (1 / 60)
          (Player_constructor\<lparr>velocity := \<lparr>X = 1, Y = - 2, Z = 2\<rparr>, onGround := True\<rparr>))) = - 2"
proof -
  let ?g = "Player_constructor\<lparr>velocity := \<lparr>X = 1, Y = - 2, Z = 2\<rparr>, onGround := True\<rparr>"
  have a: "\<not> onGround landingAvatar" and a': "\<not> onGround Player_constructor"
    and g: "onGround ?g"
    by (simp_all add: landingAvatar_def Player_constructor_def)
  have n1: "noVerticalHit (Some landingWorld) (moved landingAvatar)"
    and n2: "noVerticalHit (Some lowCeilingWorld) (moved ?g)"
    by (simp_all add: noVerticalHit_def verticalHit_def landingWorld_def lowCeilingWorld_def
        landingAvatar_def
        Player_constructor_def moved_def physics_defs Let_def)
  note air = gravity_per_tick [of landingAvatar "Some landingWorld" "1 / 60", THEN conjunct1,
      rule_format, OF a]
  note fall = gravity_per_tick [of Player_constructor "Some []" "1 / 60", THEN conjunct1,
      rule_format, OF a']
  note ground = gravity_per_tick [of ?g "Some lowCeilingWorld" "1 / 60", THEN conjunct2,
      rule_format, OF g]
  from air have ft: "fallTime (update (Some landingWorld) (1 / 60) landingAvatar)
      = fallTime landingAvatar + 1 / 60" by blast
  then have 2: "fallTime (update (Some landingWorld) (1 / 60) landingAvatar) = 1 / 60"
    by (simp add: landingAvatar_def Player_constructor_def)
  from air n1 have "Y (velocity (update (Some landingWorld) (1 / 60) landingAvatar))
      = Y (velocity landingAvatar)
        - min (25 + fallTime (update (Some landingWorld) (1 / 60) landingAvatar) * 14) 35 * (1 / 60)"
    by blast
  then have 1: "Y (velocity (update (Some landingWorld) (1 / 60) landingAvatar)) = - (757 / 1800)"
    unfolding 2 by (simp add: landingAvatar_def Player_constructor_def)
  from fall have "fallTime (ticks (Some []) (Suc 600) Player_constructor)
        = fallTime Player_constructor + of_nat (Suc 600) / 60"
    and "Y (velocity (ticks (Some []) (Suc 600) Player_constructor))
                = Y (velocity (ticks (Some []) 600 Player_constructor))
                  - min (25 + fallTime (ticks (Some []) (Suc 600) Player_constructor) * 14) 35 * (1 / 60)"
    by blast+
  then have "Y (velocity (ticks (Some []) (Suc 600) Player_constructor))
       = Y (velocity (ticks (Some []) 600 Player_constructor)) - 7 / 12"
    by (simp add: Player_constructor_def)
  moreover have "Suc 600 = 601" by simp
  ultimately have 3: "Y (velocity (ticks (Some []) 601 Player_constructor))
       = Y (velocity (ticks (Some []) 600 Player_constructor)) - 7 / 12"
    by (simp only:)
  from ground n2 have "Y (velocity (update (Some lowCeilingWorld) (1 / 60) ?g)) = Y (velocity ?g)"
    by blast
  then have 4: "Y (velocity (update (Some lowCeilingWorld) (1 / 60) ?g)) = - 2" by simp
  from 1 2 3 4 show ?thesis by (intro conjI)
qed

text \<open>
  Claim C2 as stated fails on the landing tick. In the landing scenario the player is
  in the air after tick 31 with \<open>velocity.y = -13361/900\<close>; the gravity of tick 32
  times the step is 487/900; yet after tick 32 \<open>velocity.y\<close> is 0, set by the snap of
  the collision pass, and not \<open>-13361/900 - 487/900\<close>.
\<close>

theorem gravity_landing_tick_counterexample:
  "\<not> onGround (ticks (Some landingWorld) 31 landingAvatar)
   \<and> Y (velocity (ticks (Some landingWorld) 31 landingAvatar)) = - (13361 / 900)
   \<and> min (25 + fallTime (ticks (Some landingWorld) 32 landingAvatar) * 14) 35 * (1 / 60) = 487 / 900
   \<and> Y (velocity (ticks (Some landingWorld) 32 landingAvatar)) = 0
   \<and> Y (velocity (ticks (Some landingWorld) 32 landingAvatar))
       \<noteq> Y (velocity (ticks (Some landingWorld) 31 landingAvatar))
         - min (25 + fallTime (ticks (Some landingWorld) 32 landingAvatar) * 14) 35 * (1 / 60)"
  by (simp add: landing_31 landing_32 Player_constructor_def)

section \<open>Landing: theorems\<close>

text \<open>
  The contact at rest is sharp: put any positive amount higher than the resting
  height, the player's box no longer meets the block's, no block is under foot and
  \<open>handleCollisions\<close> clears the ground flag.
\<close>

lemma resting_contact_is_sharp:
  assumes "0 < e"
  shows "handleCollisions (Some landingWorld)
           (landedAvatar\<lparr>position := \<lparr>X = 0, Y = 11 / 10 + e, Z = 0\<rparr>\<rparr>)
         = landedAvatar\<lparr>position := \<lparr>X = 0, Y = 11 / 10 + e, Z = 0\<rparr>, onGround := False\<rparr>"
  using assms
  by (simp add: handleCollisions_def landingWorld_def landedAvatar_def Player_constructor_def
      collideBlock_def playerBoxAt_def setFromObject_def setFromCenterAndSize_def
      intersectsBox_def height_def width_def Let_def)




end
